theory Spec2Isabelle
  imports Complex_Main
begin

section \<open>The C++ type \<open>double\<close>\<close>

text \<open>
  The solver of \<^verbatim>\<open>include/Optimization/Convex/ADMM.h\<close> computes with C++ \<open>double\<close>s.
  The model keeps the special values of IEEE 754 arithmetic and the way they propagate:
  the two infinities, the two zeros and NaN, with \<open>x / 0\<close> an infinity, \<open>0 / 0\<close> and
  \<open>\<infinity> - \<infinity>\<close> NaN, and every ordered comparison with NaN false. Finite values
  carry an exact real number: rounding, overflow and underflow of finite results are not
  modelled, so a statement below about a finite result is a statement about the exact
  value the code's expression denotes.

  \<open>Fin 0\<close> is the positive zero and \<open>NZero\<close> the negative one.
\<close>

datatype double = NaN | PInf | NInf | NZero | Fin real

definition is_nan :: "double \<Rightarrow> bool" where
  "is_nan a = (a = NaN)"

definition is_inf :: "double \<Rightarrow> bool" where
  "is_inf a = (a = PInf \<or> a = NInf)"

definition is_zero :: "double \<Rightarrow> bool" where
  "is_zero a = (a = NZero \<or> a = Fin 0)"

text \<open>\<open>std::isfinite\<close>: neither an infinity nor NaN.\<close>

definition is_finite :: "double \<Rightarrow> bool" where
  "is_finite a = (a \<noteq> NaN \<and> a \<noteq> PInf \<and> a \<noteq> NInf)"

fun sign_bit :: "double \<Rightarrow> bool" where
  "sign_bit NaN = False"
| "sign_bit PInf = False"
| "sign_bit NInf = True"
| "sign_bit NZero = True"
| "sign_bit (Fin r) = (r < 0)"

fun val :: "double \<Rightarrow> real" where
  "val (Fin r) = r"
| "val _ = 0"

definition signed_zero :: "bool \<Rightarrow> double" where
  "signed_zero s = (if s then NZero else Fin 0)"

definition signed_inf :: "bool \<Rightarrow> double" where
  "signed_inf s = (if s then NInf else PInf)"

text \<open>A finite result \<open>r\<close>; when it is zero, \<open>s\<close> is the sign the zero takes.\<close>

definition finite_result :: "bool \<Rightarrow> real \<Rightarrow> double" where
  "finite_result s r = (if r = 0 then signed_zero s else Fin r)"

definition dmul :: "double \<Rightarrow> double \<Rightarrow> double" where
  "dmul a b =
     (if is_nan a \<or> is_nan b then NaN
      else if (is_inf a \<and> is_zero b) \<or> (is_zero a \<and> is_inf b) then NaN
      else if is_inf a \<or> is_inf b then signed_inf (sign_bit a \<noteq> sign_bit b)
      else finite_result (sign_bit a \<noteq> sign_bit b) (val a * val b))"

definition ddiv :: "double \<Rightarrow> double \<Rightarrow> double" where
  "ddiv a b =
     (if is_nan a \<or> is_nan b then NaN
      else if (is_inf a \<and> is_inf b) \<or> (is_zero a \<and> is_zero b) then NaN
      else if is_inf a \<or> is_zero b then signed_inf (sign_bit a \<noteq> sign_bit b)
      else if is_inf b then signed_zero (sign_bit a \<noteq> sign_bit b)
      else finite_result (sign_bit a \<noteq> sign_bit b) (val a / val b))"

text \<open>
  A sum of finite values that is zero is the positive zero (rounding to nearest), unless
  both summands are the negative zero.
\<close>

definition dadd :: "double \<Rightarrow> double \<Rightarrow> double" where
  "dadd a b =
     (if is_nan a \<or> is_nan b then NaN
      else if is_inf a then (if is_inf b \<and> b \<noteq> a then NaN else a)
      else if is_inf b then b
      else finite_result (a = NZero \<and> b = NZero) (val a + val b))"

definition dneg :: "double \<Rightarrow> double" where
  "dneg a =
     (case a of NaN \<Rightarrow> NaN | PInf \<Rightarrow> NInf | NInf \<Rightarrow> PInf | NZero \<Rightarrow> Fin 0
      | Fin r \<Rightarrow> finite_result True (- r))"

definition dlt :: "double \<Rightarrow> double \<Rightarrow> bool" where
  "dlt a b =
     (if is_nan a \<or> is_nan b then False
      else if a = PInf \<or> b = NInf then False
      else if a = NInf \<or> b = PInf then True
      else val a < val b)"

text \<open>
  The operators of the source, \<open>*\<close>, \<open>/\<close>, \<open>+\<close>, \<open>-\<close>, \<open><\<close>, \<open>>\<close> and \<open><=\<close>, at type
  \<open>double\<close>. \<open>a <= b\<close> is false when either side is NaN, as \<open>a < b\<close> is.
\<close>

instantiation double :: "{plus, minus, uminus, times, inverse, ord, default}"
begin

definition times_double :: "double \<Rightarrow> double \<Rightarrow> double" where
  "times_double = dmul"

definition divide_double :: "double \<Rightarrow> double \<Rightarrow> double" where
  "divide_double = ddiv"

definition inverse_double :: "double \<Rightarrow> double" where
  "inverse_double = ddiv (Fin 1)"

definition plus_double :: "double \<Rightarrow> double \<Rightarrow> double" where
  "plus_double = dadd"

definition uminus_double :: "double \<Rightarrow> double" where
  "uminus_double = dneg"

definition minus_double :: "double \<Rightarrow> double \<Rightarrow> double" where
  "minus_double a b = dadd a (dneg b)"

definition less_double :: "double \<Rightarrow> double \<Rightarrow> bool" where
  "less_double = dlt"

definition less_eq_double :: "double \<Rightarrow> double \<Rightarrow> bool" where
  "less_eq_double a b = (\<not> is_nan a \<and> \<not> is_nan b \<and> \<not> dlt b a)"

definition default_double :: double where
  "default_double = Fin 0"

instance ..

end

text \<open>\<open>sqrt\<close> of \<open><cmath>\<close>: NaN below zero, and the negative zero is its own root.\<close>

definition dsqrt :: "double \<Rightarrow> double" where
  "dsqrt a =
     (case a of NaN \<Rightarrow> NaN | PInf \<Rightarrow> PInf | NInf \<Rightarrow> NaN | NZero \<Rightarrow> NZero
      | Fin r \<Rightarrow> if r < 0 then NaN else Fin (sqrt r))"

text \<open>
  \<open>std::max<double>({a, b, c})\<close>: the library keeps the first element and replaces it by a
  later one only when \<open>largest < later\<close> holds, so a NaN never replaces anything and a leading
  NaN is never replaced.
\<close>

definition std_max3 :: "double \<Rightarrow> double \<Rightarrow> double \<Rightarrow> double" where
  "std_max3 a b c =
     (let largest = a;
          largest = (if largest < b then b else largest);
          largest = (if largest < c then c else largest)
      in largest)"

section \<open>The penalty parameter updates\<close>

subsection \<open>Residual balancing\<close>

text \<open>\<open>residual_balance_penalty_parameter_update\<close>, lines 184 to 194 of the header.\<close>

definition residual_balance_penalty_parameter_update ::
  "double \<Rightarrow> double \<Rightarrow> double \<Rightarrow> double \<Rightarrow> double \<Rightarrow> double" where
  "residual_balance_penalty_parameter_update primal_residual dual_residual mu tau rho =
     (if primal_residual > mu * dual_residual then tau * rho
      else if dual_residual > mu * primal_residual then rho / tau
      else rho)"

subsection \<open>Spectral penalty selection\<close>

text \<open>
  \<open>spectral_penalty_parameter_update\<close>, lines 202 to 283. The template parameter
  \<open>VariableR\<close> is the type variable \<open>'r\<close>; the auxiliary arguments \<open>args...\<close>, which the
  source only hands on to the inner product, are part of the function \<open>inner_product\<close>.
  The integer literal \<open>2\<close> of the source is converted to the double \<open>Fin 2\<close>.
\<close>

definition spectral_penalty_parameter_update ::
  "'r \<Rightarrow> 'r \<Rightarrow> 'r \<Rightarrow> 'r \<Rightarrow> ('r \<Rightarrow> 'r \<Rightarrow> double) \<Rightarrow> double \<Rightarrow> double \<Rightarrow> double" where
  "spectral_penalty_parameter_update delta_lambda_hat delta_lambda delta_H_hat delta_G_hat
       inner_product eps_cor rho =
     (let delta_lambda_hat_delta_lambda_hat = inner_product delta_lambda_hat delta_lambda_hat;
          delta_H_hat_delta_lambda_hat = inner_product delta_H_hat delta_lambda_hat;
          delta_H_hat_delta_H_hat = inner_product delta_H_hat delta_H_hat;
          delta_lambda_delta_lambda = inner_product delta_lambda delta_lambda;
          delta_G_hat_delta_lambda = inner_product delta_G_hat delta_lambda;
          delta_G_hat_delta_G_hat = inner_product delta_G_hat delta_G_hat;
          alpha_SD = delta_lambda_hat_delta_lambda_hat / delta_H_hat_delta_lambda_hat;
          alpha_MG = delta_H_hat_delta_lambda_hat / delta_H_hat_delta_H_hat;
          beta_SD = delta_lambda_delta_lambda / delta_G_hat_delta_lambda;
          beta_MG = delta_G_hat_delta_lambda / delta_G_hat_delta_G_hat;
          alpha = (if Fin 2 * alpha_MG > alpha_SD then alpha_MG
                   else alpha_SD - alpha_MG / Fin 2);
          beta = (if Fin 2 * beta_MG > beta_SD then beta_MG
                  else beta_SD - beta_MG / Fin 2);
          delta_lambda_hat_norm = dsqrt delta_lambda_hat_delta_lambda_hat;
          alpha_cor = delta_H_hat_delta_lambda_hat /
                        (dsqrt delta_H_hat_delta_H_hat * delta_lambda_hat_norm);
          delta_lambda_norm = dsqrt delta_lambda_delta_lambda;
          beta_cor = delta_G_hat_delta_lambda /
                       (dsqrt delta_G_hat_delta_G_hat * delta_lambda_norm)
      in if alpha_cor > eps_cor \<and> beta_cor > eps_cor then dsqrt (alpha * beta)
         else if alpha_cor > eps_cor \<and> beta_cor \<le> eps_cor then alpha
         else if alpha_cor \<le> eps_cor \<and> beta_cor > eps_cor then beta
         else rho)"

text \<open>
  The quantities the source computes on the way, by the names of its comments: for a pair
  (\<open>delta\<close>, \<open>delta_hat\<close>), which is (\<open>delta_lambda_hat\<close>, \<open>delta_H_hat\<close>) for the alphas and
  (\<open>delta_lambda\<close>, \<open>delta_G_hat\<close>) for the betas, the steepest descent and the minimum
  gradient step sizes (lines 236 to 248), the hybrid step size (lines 256 to 259) and the
  correlation (lines 263 to 271).
\<close>

definition stepsize_SD :: "('r \<Rightarrow> 'r \<Rightarrow> double) \<Rightarrow> 'r \<Rightarrow> 'r \<Rightarrow> double" where
  "stepsize_SD inner_product delta delta_hat =
     inner_product delta delta / inner_product delta_hat delta"

definition stepsize_MG :: "('r \<Rightarrow> 'r \<Rightarrow> double) \<Rightarrow> 'r \<Rightarrow> 'r \<Rightarrow> double" where
  "stepsize_MG inner_product delta delta_hat =
     inner_product delta_hat delta / inner_product delta_hat delta_hat"

definition hybrid_stepsize :: "double \<Rightarrow> double \<Rightarrow> double" where
  "hybrid_stepsize step_SD step_MG =
     (if Fin 2 * step_MG > step_SD then step_MG else step_SD - step_MG / Fin 2)"

definition stepsize :: "('r \<Rightarrow> 'r \<Rightarrow> double) \<Rightarrow> 'r \<Rightarrow> 'r \<Rightarrow> double" where
  "stepsize inner_product delta delta_hat =
     hybrid_stepsize (stepsize_SD inner_product delta delta_hat)
       (stepsize_MG inner_product delta delta_hat)"

definition correlation :: "('r \<Rightarrow> 'r \<Rightarrow> double) \<Rightarrow> 'r \<Rightarrow> 'r \<Rightarrow> double" where
  "correlation inner_product delta delta_hat =
     inner_product delta_hat delta /
       (dsqrt (inner_product delta_hat delta_hat) * dsqrt (inner_product delta delta))"


section \<open>The ADMM solver\<close>

subsection \<open>Parameters and result\<close>

datatype ADMMPenaltyAdaptation = None_Adaptation | Residual_Balance | Spectral

text \<open>
  Modelled from the spec: the base struct \<open>OptimizerParams\<close>, declared in a header that is
  not part of the sources at hand. The spec lists its fields as the inherited budget and
  reporting controls \<open>max_iterations\<close>, \<open>max_computation_time\<close>, \<open>verbose\<close>, \<open>precision\<close>
  and \<open>log_iterates\<close>. The solver compares \<open>max_iterations\<close> with its \<open>unsigned int\<close>
  counter and \<open>max_computation_time\<close> with a \<open>double\<close>.
\<close>

record OptimizerParams =
  max_iterations :: nat
  max_computation_time :: double
  verbose :: bool
  precision :: nat
  log_iterates :: bool

text \<open>
  \<open>ADMMParams\<close>, lines 70 to 145. The field \<open>rho\<close> of the source is \<open>rho_initial\<close> here, to
  keep it apart from the solver's variable \<open>rho\<close>. The \<open>unsigned int\<close> fields are natural
  numbers: the solver only compares them with its counter \<open>i\<close> and takes the remainder
  \<open>i % penalty_adaptation_period\<close>, and \<open>i\<close> stays below \<open>max_iterations\<close>, so nothing wraps
  around.
\<close>

record ADMMParams = OptimizerParams +
  rho_initial :: double
  penalty_adaptation_mode :: ADMMPenaltyAdaptation
  penalty_adaptation_period :: nat
  penalty_adaptation_window :: nat
  residual_balance_mu :: double
  residual_balance_tau :: double
  spectral_penalty_minimum_correlation :: double
  eps_abs_pri :: double
  eps_abs_dual :: double
  eps_rel :: double

datatype ADMMStatus = RESIDUAL_TOLERANCE | ITERATION_LIMIT | ELAPSED_TIME

text \<open>
  Modelled from the spec: the base struct \<open>OptimizerResult\<close>, declared in the same missing
  header. By the spec and by the solver's assignments it holds the final value \<open>x\<close> (for
  ADMM the pair of \<open>x\<close> and \<open>y\<close>, here \<open>x_final\<close>), the total \<open>elapsed_time\<close> (here
  \<open>total_elapsed_time\<close>), the elapsed \<open>time\<close> at the start of each recorded iteration and
  the logged \<open>iterates\<close>.
\<close>

record ('x, 'y) OptimizerResult =
  x_final :: "'x \<times> 'y"
  total_elapsed_time :: double
  time :: "double list"
  iterates :: "('x \<times> 'y) list"

text \<open>\<open>ADMMResult\<close>, lines 163 to 178.\<close>

record ('x, 'y) ADMMResult = "('x, 'y) OptimizerResult" +
  status :: ADMMStatus
  primal_residuals :: "double list"
  dual_residuals :: "double list"
  penalty_parameters :: "double list"

subsection \<open>What the caller supplies\<close>

text \<open>
  The arguments of \<open>ADMM\<close> other than the parameters, lines 288 to 295, with what the
  template leaves to its instantiation: the product of a \<open>double\<close> with a \<open>VariableX\<close> and
  with a \<open>VariableR\<close> (\<open>env_scale_x\<close>, \<open>env_scale_r\<close>), and the clock. Sums, differences and
  negation of variables are the operations \<open>+\<close> and \<open>-\<close> of the type classes, and a
  default-constructed variable is \<open>default\<close>.

  \<open>env_tock k\<close> is what the call number \<open>k\<close> of \<open>Stopwatch::tock(start_time)\<close> returns,
  counting from 0; nothing is assumed of the clock. The auxiliary arguments \<open>args...\<close> are
  the same in every call, so they are part of the functions.
\<close>

record ('x, 'y, 'r) admm_env =
  env_minLx :: "'x \<Rightarrow> 'y \<Rightarrow> 'r \<Rightarrow> double \<Rightarrow> 'x"
  env_minLy :: "'x \<Rightarrow> 'y \<Rightarrow> 'r \<Rightarrow> double \<Rightarrow> 'y"
  env_A :: "'x \<Rightarrow> 'r"
  env_B :: "'y \<Rightarrow> 'r"
  env_At :: "'r \<Rightarrow> 'x"
  env_inner_product_x :: "'x \<Rightarrow> 'x \<Rightarrow> double"
  env_inner_product_r :: "'r \<Rightarrow> 'r \<Rightarrow> double"
  env_c :: 'r
  env_x0 :: 'x
  env_y0 :: 'y
  env_scale_x :: "double \<Rightarrow> 'x \<Rightarrow> 'x"
  env_scale_r :: "double \<Rightarrow> 'r \<Rightarrow> 'r"
  env_tock :: "nat \<Rightarrow> double"

subsection \<open>The state of the loop\<close>

text \<open>
  The variables of \<open>ADMM\<close> that live across iterations (\<open>var_\<close>), the fields of \<open>result\<close>
  filled so far (\<open>acc_\<close>), and two counters that are not in the source: the number of
  clock readings taken, and the calls of the two minimisation oracles made so far, each
  with the penalty parameter it was given.

  The source declares \<open>y_prev\<close> with type \<open>VariableX\<close>, assigns it from \<open>y0\<close> and \<open>y\<close> and
  passes it to \<open>B\<close>; the model gives it the type of \<open>y\<close>. The variables \<open>r\<close>, \<open>s\<close>, \<open>Ax\<close>,
  \<open>By\<close>, \<open>primal_residual\<close> and \<open>dual_residual\<close> are written in every iteration before they
  are read, so they are local to the iteration here. Console output (\<open>verbose\<close>,
  \<open>precision\<close>, \<open>iter_field_width\<close>) is not modelled.
\<close>

datatype minimizer = MinLx | MinLy

record ('x, 'y, 'r) admm_state =
  var_x :: 'x
  var_y :: 'y
  var_lambda :: 'r
  var_y_prev :: 'y
  var_rho :: double
  var_lambda_hat :: 'r
  var_x_k0 :: 'x
  var_y_k0 :: 'y
  var_lambda_k0 :: 'r
  var_lambda_hat_k0 :: 'r
  acc_status :: ADMMStatus
  acc_time :: "double list"
  acc_primal_residuals :: "double list"
  acc_dual_residuals :: "double list"
  acc_penalty_parameters :: "double list"
  acc_iterates :: "('x \<times> 'y) list"
  tocks :: nat
  oracle_calls :: "(minimizer \<times> double) list"

subsection \<open>The conditions on the iteration counter\<close>

text \<open>
  \<open>(i % params.penalty_adaptation_period) == 0\<close> on \<open>unsigned int\<close>s: the remainder by zero
  is undefined behaviour in C++, the error \<open>Remainder_By_Zero\<close> here.
\<close>

datatype admm_error = Remainder_By_Zero

definition remainder_is_zero :: "nat \<Rightarrow> nat \<Rightarrow> admm_error + bool" where
  "remainder_is_zero i period =
     (if period = 0 then Inl Remainder_By_Zero else Inr (i mod period = 0))"

text \<open>
  The condition of lines 395 to 397, under which \<open>lambda_hat\<close> is computed. \<open>&&\<close>
  evaluates its right operand only when the left one is true.
\<close>

definition spectral_condition :: "ADMMParams \<Rightarrow> nat \<Rightarrow> admm_error + bool" where
  "spectral_condition params i =
     (if penalty_adaptation_mode params = Spectral then
        (case remainder_is_zero i (penalty_adaptation_period params) of
           Inl e \<Rightarrow> Inl e
         | Inr z \<Rightarrow> Inr (z \<and> i < penalty_adaptation_window params))
      else Inr False)"

text \<open>The condition of lines 460 to 462, under which the penalty parameter is updated.\<close>

definition adaptation_condition :: "ADMMParams \<Rightarrow> nat \<Rightarrow> admm_error + bool" where
  "adaptation_condition params i =
     (if penalty_adaptation_mode params \<noteq> None_Adaptation then
        (case remainder_is_zero i (penalty_adaptation_period params) of
           Inl e \<Rightarrow> Inl e
         | Inr z \<Rightarrow> Inr (z \<and> i < penalty_adaptation_window params))
      else Inr False)"

subsection \<open>The penalty parameter update of the loop\<close>

text \<open>
  Lines 463 to 498, the body of the \<open>if\<close> of line 460: the two \<open>if\<close>s on the mode, one
  after the other.
\<close>

definition penalty_parameter_update ::
  "('x::minus, 'y::minus, 'r::{minus, uminus}) admm_env \<Rightarrow> ADMMParams \<Rightarrow> double \<Rightarrow> double \<Rightarrow>
     ('x, 'y, 'r) admm_state \<Rightarrow> ('x, 'y, 'r) admm_state" where
  "penalty_parameter_update E params primal_residual dual_residual st =
     (let st = (if penalty_adaptation_mode params = Residual_Balance
                then st\<lparr>var_rho := residual_balance_penalty_parameter_update
                       primal_residual dual_residual (residual_balance_mu params)
                       (residual_balance_tau params) (var_rho st)\<rparr>
                else st)
      in if penalty_adaptation_mode params = Spectral then
           (let delta_lambda = var_lambda st - var_lambda_k0 st;
                delta_lambda_hat = var_lambda_hat st - var_lambda_hat_k0 st;
                delta_H = - env_A E (var_x st - var_x_k0 st);
                delta_G = - env_B E (var_y st - var_y_k0 st)
            in st\<lparr>var_rho := spectral_penalty_parameter_update delta_lambda_hat delta_lambda
                      delta_H delta_G (env_inner_product_r E)
                      (spectral_penalty_minimum_correlation params) (var_rho st),
                  var_x_k0 := var_x st,
                  var_y_k0 := var_y st,
                  var_lambda_k0 := var_lambda st,
                  var_lambda_hat_k0 := var_lambda_hat st\<rparr>)
         else st)"

subsection \<open>One iteration\<close>

text \<open>\<open>break\<close> leaves the loop with the state; otherwise the loop goes on to \<open>++i\<close>.\<close>

datatype 'a control = Break 'a | Next 'a

text \<open>
  The body of the \<open>for\<close> loop, lines 374 to 503, for the counter \<open>i\<close>; \<open>c_norm\<close> is computed
  once before the loop (line 328).
\<close>

definition ADMM_iteration ::
  "('x::minus, 'y::minus, 'r::{plus, minus, uminus}) admm_env \<Rightarrow> ADMMParams \<Rightarrow> double \<Rightarrow> nat \<Rightarrow>
     ('x, 'y, 'r) admm_state \<Rightarrow> admm_error + ('x, 'y, 'r) admm_state control" where
  "ADMM_iteration E params c_norm i st =
     (let elapsed_time = env_tock E (tocks st);
          st = st\<lparr>tocks := Suc (tocks st)\<rparr>
      in if elapsed_time > max_computation_time params
         then Inr (Break (st\<lparr>acc_status := ELAPSED_TIME\<rparr>))
         else
           let rho = var_rho st;
               y_prev = var_y_prev st;
               x = env_minLx E (var_x st) (var_y st) (var_lambda st) rho;
               y = env_minLy E x (var_y st) (var_lambda st) rho;
               st = st\<lparr>oracle_calls := oracle_calls st @ [(MinLx, rho), (MinLy, rho)]\<rparr>;
               Ax = env_A E x;
               By = env_B E y;
               r = Ax + By - env_c E
           in case spectral_condition params i of
                Inl e \<Rightarrow> Inl e
              | Inr compute_lambda_hat \<Rightarrow>
                  let lambda_hat =
                        (if compute_lambda_hat
                         then var_lambda st + env_scale_r E rho (Ax + env_B E y_prev - env_c E)
                         else var_lambda_hat st);
                      lambda = var_lambda st + env_scale_r E rho r;
                      s = env_scale_x E rho (env_At E (env_B E (y - y_prev)));
                      primal_residual = dsqrt (env_inner_product_r E r r);
                      dual_residual = dsqrt (env_inner_product_x E s s);
                      st = st\<lparr>var_x := x, var_y := y, var_lambda := lambda,
                              var_lambda_hat := lambda_hat,
                              acc_time := acc_time st @ [elapsed_time],
                              acc_primal_residuals := acc_primal_residuals st @ [primal_residual],
                              acc_dual_residuals := acc_dual_residuals st @ [dual_residual],
                              acc_penalty_parameters := acc_penalty_parameters st @ [rho],
                              acc_iterates := (if log_iterates params
                                               then acc_iterates st @ [(x, y)]
                                               else acc_iterates st)\<rparr>;
                      Ax_norm = dsqrt (env_inner_product_r E Ax Ax);
                      By_norm = dsqrt (env_inner_product_r E By By);
                      eps_primal = eps_abs_pri params +
                                     eps_rel params * std_max3 Ax_norm By_norm c_norm;
                      At_lambda = env_At E lambda;
                      At_lambda_norm = dsqrt (env_inner_product_x E At_lambda At_lambda);
                      eps_dual = eps_abs_dual params + eps_rel params * At_lambda_norm
                  in if primal_residual < eps_primal \<and> dual_residual < eps_dual
                     then Inr (Break (st\<lparr>acc_status := RESIDUAL_TOLERANCE\<rparr>))
                     else
                       (case adaptation_condition params i of
                          Inl e \<Rightarrow> Inl e
                        | Inr adapt \<Rightarrow>
                            let st = (if adapt
                                      then penalty_parameter_update E params
                                             primal_residual dual_residual st
                                      else st)
                            in Inr (Next (st\<lparr>var_y_prev := y\<rparr>))))"

subsection \<open>The loop and the solver\<close>

text \<open>\<open>for (unsigned int i = 0; i < params.max_iterations; ++i)\<close>, from the counter \<open>i\<close> on.\<close>

function ADMM_loop ::
  "('x::minus, 'y::minus, 'r::{plus, minus, uminus}) admm_env \<Rightarrow> ADMMParams \<Rightarrow> double \<Rightarrow> nat \<Rightarrow>
     ('x, 'y, 'r) admm_state \<Rightarrow> admm_error + ('x, 'y, 'r) admm_state" where
  "ADMM_loop E params c_norm i st =
     (if i < max_iterations params then
        (case ADMM_iteration E params c_norm i st of
           Inl e \<Rightarrow> Inl e
         | Inr (Break st') \<Rightarrow> Inr st'
         | Inr (Next st') \<Rightarrow> ADMM_loop E params c_norm (Suc i) st')
      else Inr st)"
  by pat_completeness auto
termination
  by (relation "measure (\<lambda>(E, params, c_norm, i, st). max_iterations params - i)") auto

declare ADMM_loop.simps [simp del]

text \<open>
  The initialisation, lines 341 to 358. The variables of the spectral procedure keep their
  default-constructed value unless the mode is \<open>Spectral\<close>.
\<close>

definition ADMM_initial_state ::
  "('x::{minus, default}, 'y::{minus, default}, 'r::{plus, minus, uminus, default}) admm_env \<Rightarrow>
     ADMMParams \<Rightarrow> ('x, 'y, 'r) admm_state" where
  "ADMM_initial_state E params =
     (let x = env_x0 E;
          y = env_y0 E;
          y_prev = env_y0 E;
          rho = rho_initial params;
          lambda = env_scale_r E rho (env_A E x + env_B E y - env_c E);
          spectral = (penalty_adaptation_mode params = Spectral)
      in \<lparr>var_x = x, var_y = y, var_lambda = lambda, var_y_prev = y_prev, var_rho = rho,
          var_lambda_hat = default,
          var_x_k0 = (if spectral then x else default),
          var_y_k0 = (if spectral then y else default),
          var_lambda_k0 = (if spectral then lambda else default),
          var_lambda_hat_k0 = (if spectral then lambda else default),
          acc_status = ITERATION_LIMIT,
          acc_time = [], acc_primal_residuals = [], acc_dual_residuals = [],
          acc_penalty_parameters = [], acc_iterates = [],
          tocks = 0, oracle_calls = []\<rparr>)"

text \<open>The solver up to the end of its loop: the state in which the loop is left.\<close>

definition ADMM_run ::
  "('x::{minus, default}, 'y::{minus, default}, 'r::{plus, minus, uminus, default}) admm_env \<Rightarrow>
     ADMMParams \<Rightarrow> admm_error + ('x, 'y, 'r) admm_state" where
  "ADMM_run E params =
     (let c_norm = dsqrt (env_inner_product_r E (env_c E) (env_c E))
      in ADMM_loop E params c_norm 0 (ADMM_initial_state E params))"

text \<open>The final output, lines 507 to 509 and 538.\<close>

definition ADMM_output ::
  "('x, 'y, 'r) admm_env \<Rightarrow> ('x, 'y, 'r) admm_state \<Rightarrow> ('x, 'y) ADMMResult" where
  "ADMM_output E st =
     \<lparr>x_final = (var_x st, var_y st),
      total_elapsed_time = env_tock E (tocks st),
      time = acc_time st,
      iterates = acc_iterates st,
      status = acc_status st,
      primal_residuals = acc_primal_residuals st,
      dual_residuals = acc_dual_residuals st,
      penalty_parameters = acc_penalty_parameters st\<rparr>"

text \<open>
  \<open>ADMM\<close>, lines 285 to 539, with its arguments in the order of the source after the three
  that the template leaves open.
\<close>

definition ADMM ::
  "(double \<Rightarrow> 'x \<Rightarrow> 'x) \<Rightarrow>
   (double \<Rightarrow> 'r::{plus, minus, uminus, default} \<Rightarrow> 'r) \<Rightarrow> (nat \<Rightarrow> double) \<Rightarrow>
   ('x \<Rightarrow> 'y \<Rightarrow> 'r \<Rightarrow> double \<Rightarrow> 'x) \<Rightarrow> ('x \<Rightarrow> 'y \<Rightarrow> 'r \<Rightarrow> double \<Rightarrow> 'y) \<Rightarrow>
   ('x \<Rightarrow> 'r) \<Rightarrow> ('y \<Rightarrow> 'r) \<Rightarrow> ('r \<Rightarrow> 'x) \<Rightarrow>
   ('x \<Rightarrow> 'x \<Rightarrow> double) \<Rightarrow> ('r \<Rightarrow> 'r \<Rightarrow> double) \<Rightarrow> 'r \<Rightarrow> 'x \<Rightarrow> 'y \<Rightarrow> ADMMParams \<Rightarrow>
   admm_error +
     ('x::{minus, default}, 'y::{minus, default}) ADMMResult" where
  "ADMM scale_x scale_r tock minLx minLy A B At inner_product_x inner_product_r c x0 y0 params =
     (let E = \<lparr>env_minLx = minLx, env_minLy = minLy, env_A = A, env_B = B, env_At = At,
               env_inner_product_x = inner_product_x, env_inner_product_r = inner_product_r,
               env_c = c, env_x0 = x0, env_y0 = y0,
               env_scale_x = scale_x, env_scale_r = scale_r, env_tock = tock\<rparr>
      in case ADMM_run E params of
           Inl e \<Rightarrow> Inl e
         | Inr st \<Rightarrow> Inr (ADMM_output E st))"

text \<open>
  The overload for a single variable type, lines 545 to 558: one type, hence one product
  with a \<open>double\<close>, and one inner product.
\<close>

definition ADMM_single ::
  "(double \<Rightarrow> 'v \<Rightarrow> 'v) \<Rightarrow> (nat \<Rightarrow> double) \<Rightarrow>
   ('v \<Rightarrow> 'v \<Rightarrow> 'v \<Rightarrow> double \<Rightarrow> 'v) \<Rightarrow> ('v \<Rightarrow> 'v \<Rightarrow> 'v \<Rightarrow> double \<Rightarrow> 'v) \<Rightarrow>
   ('v \<Rightarrow> 'v) \<Rightarrow> ('v \<Rightarrow> 'v) \<Rightarrow> ('v \<Rightarrow> 'v) \<Rightarrow>
   ('v \<Rightarrow> 'v \<Rightarrow> double) \<Rightarrow> 'v \<Rightarrow> 'v \<Rightarrow> 'v \<Rightarrow> ADMMParams \<Rightarrow>
   admm_error + ('v::{plus, minus, uminus, default}, 'v) ADMMResult" where
  "ADMM_single scale tock minLx minLy A B At inner_product c x0 y0 params =
     ADMM scale scale tock minLx minLy A B At inner_product inner_product c x0 y0 params"

section \<open>Instances for evaluation\<close>

text \<open>
  The dot product of pairs of doubles, a two-dimensional \<open>VariableR\<close>; the product \<open>*\<close> is
  the dot product of the one-dimensional case.
\<close>

definition dot2 :: "double \<times> double \<Rightarrow> double \<times> double \<Rightarrow> double" where
  "dot2 u v = fst u * fst v + snd u * snd v"

text \<open>
  The default member initialisers of \<open>ADMMParams\<close>, lines 75 to 144, for a given iteration
  limit and time limit (the defaults of the base struct are not in the sources at hand).
\<close>

definition ADMMParams_default :: "nat \<Rightarrow> double \<Rightarrow> ADMMParams" where
  "ADMMParams_default max_iter max_time =
     \<lparr>max_iterations = max_iter, max_computation_time = max_time, verbose = False,
      precision = 3, log_iterates = False,
      rho_initial = Fin 1, penalty_adaptation_mode = None_Adaptation,
      penalty_adaptation_period = 2, penalty_adaptation_window = 1000,
      residual_balance_mu = Fin 10, residual_balance_tau = Fin 2,
      spectral_penalty_minimum_correlation = Fin (1 / 5),
      eps_abs_pri = Fin (1 / 100), eps_abs_dual = Fin (1 / 100), eps_rel = Fin (1 / 1000)\<rparr>"

text \<open>
  A problem on one-dimensional variables, \<open>VariableX = VariableY = VariableR = double\<close>,
  with \<open>A\<close> the identity, \<open>B\<close> its negative and \<open>c = 0\<close> (the constraint \<open>x - y = 0\<close>):
  minimisers that return \<open>x_min\<close> and \<open>y_min\<close> whatever they are given, the starting point
  \<open>(0, 0)\<close> and a clock that reads \<open>clock k\<close> at its call number \<open>k\<close>.
\<close>

definition scalar_env :: "double \<Rightarrow> double \<Rightarrow> (nat \<Rightarrow> double) \<Rightarrow> (double, double, double) admm_env" where
  "scalar_env x_min y_min clock =
     \<lparr>env_minLx = (\<lambda>x y lambda rho. x_min), env_minLy = (\<lambda>x y lambda rho. y_min),
      env_A = (\<lambda>x. x), env_B = (\<lambda>y. - y), env_At = (\<lambda>r. r),
      env_inner_product_x = (*), env_inner_product_r = (*),
      env_c = Fin 0, env_x0 = Fin 0, env_y0 = Fin 0,
      env_scale_x = (*), env_scale_r = (*), env_tock = clock\<rparr>"

section \<open>Auxiliary facts\<close>

text \<open>The definitions of the operations on doubles, for evaluation and case analysis.\<close>

lemmas double_ops =
  is_nan_def is_inf_def is_zero_def is_finite_def signed_zero_def signed_inf_def
  finite_result_def dmul_def ddiv_def dadd_def dneg_def dlt_def dsqrt_def
  times_double_def divide_double_def plus_double_def uminus_double_def minus_double_def
  less_double_def less_eq_double_def

text \<open>The spectral update in terms of the named quantities.\<close>

lemma spectral_penalty_parameter_update_unfold:
  "spectral_penalty_parameter_update delta_lambda_hat delta_lambda delta_H_hat delta_G_hat
       inner_product eps_cor rho =
     (if correlation inner_product delta_lambda_hat delta_H_hat > eps_cor \<and>
         correlation inner_product delta_lambda delta_G_hat > eps_cor
      then dsqrt (stepsize inner_product delta_lambda_hat delta_H_hat *
                  stepsize inner_product delta_lambda delta_G_hat)
      else if correlation inner_product delta_lambda_hat delta_H_hat > eps_cor \<and>
              correlation inner_product delta_lambda delta_G_hat \<le> eps_cor
      then stepsize inner_product delta_lambda_hat delta_H_hat
      else if correlation inner_product delta_lambda_hat delta_H_hat \<le> eps_cor \<and>
              correlation inner_product delta_lambda delta_G_hat > eps_cor
      then stepsize inner_product delta_lambda delta_G_hat
      else rho)"
  unfolding spectral_penalty_parameter_update_def stepsize_def stepsize_SD_def
    stepsize_MG_def hybrid_stepsize_def correlation_def Let_def
  by (rule refl)

subsection \<open>Positive doubles\<close>











subsection \<open>One iteration\<close>

lemma adaptation_condition_Inr:
  "adaptation_condition params i = Inr b \<Longrightarrow>
   b = (penalty_adaptation_mode params \<noteq> None_Adaptation \<and>
        penalty_adaptation_period params \<noteq> 0 \<and>
        i mod penalty_adaptation_period params = 0 \<and> i < penalty_adaptation_window params)"
  by (auto simp add: adaptation_condition_def remainder_is_zero_def split: if_splits)

lemma ADMM_iteration_elapsed:
  "env_tock E (tocks st) > max_computation_time params \<Longrightarrow>
   ADMM_iteration E params c_norm i st =
     Inr (Break (st\<lparr>tocks := Suc (tocks st), acc_status := ELAPSED_TIME\<rparr>))"
  by (simp add: ADMM_iteration_def Let_def)

lemma penalty_parameter_update_frame:
  "acc_status (penalty_parameter_update E params p d st) = acc_status st"
  "acc_time (penalty_parameter_update E params p d st) = acc_time st"
  "acc_primal_residuals (penalty_parameter_update E params p d st) = acc_primal_residuals st"
  "acc_dual_residuals (penalty_parameter_update E params p d st) = acc_dual_residuals st"
  "acc_penalty_parameters (penalty_parameter_update E params p d st) = acc_penalty_parameters st"
  "acc_iterates (penalty_parameter_update E params p d st) = acc_iterates st"
  "tocks (penalty_parameter_update E params p d st) = tocks st"
  "oracle_calls (penalty_parameter_update E params p d st) = oracle_calls st"
  "var_x (penalty_parameter_update E params p d st) = var_x st"
  "var_y (penalty_parameter_update E params p d st) = var_y st"
  "var_lambda (penalty_parameter_update E params p d st) = var_lambda st"
  by (simp_all add: penalty_parameter_update_def Let_def)


text \<open>What an iteration that ends in \<open>break\<close> after the time test has done.\<close>

lemma ADMM_iteration_Break:
  assumes "ADMM_iteration E params c_norm i st = Inr (Break st')"
    and "\<not> env_tock E (tocks st) > max_computation_time params"
  shows "acc_status st' = RESIDUAL_TOLERANCE \<and> var_rho st' = var_rho st \<and>
         acc_penalty_parameters st' = acc_penalty_parameters st @ [var_rho st] \<and>
         length (acc_time st') = Suc (length (acc_time st)) \<and>
         length (acc_primal_residuals st') = Suc (length (acc_primal_residuals st)) \<and>
         length (acc_dual_residuals st') = Suc (length (acc_dual_residuals st)) \<and>
         tocks st' = Suc (tocks st) \<and>
         oracle_calls st' = oracle_calls st @ [(MinLx, var_rho st), (MinLy, var_rho st)]"
  using assms
  by (auto simp add: ADMM_iteration_def Let_def split: sum.splits if_splits)

text \<open>What an iteration that goes on to the next one has done.\<close>

lemma ADMM_iteration_Next:
  assumes "ADMM_iteration E params c_norm i st = Inr (Next st')"
  shows "\<not> env_tock E (tocks st) > max_computation_time params \<and>
         acc_status st' = acc_status st \<and>
         (var_rho st' \<noteq> var_rho st \<longrightarrow>
            penalty_adaptation_mode params \<noteq> None_Adaptation \<and>
            penalty_adaptation_period params \<noteq> 0 \<and>
            i mod penalty_adaptation_period params = 0 \<and>
            i < penalty_adaptation_window params) \<and>
         acc_penalty_parameters st' = acc_penalty_parameters st @ [var_rho st] \<and>
         length (acc_time st') = Suc (length (acc_time st)) \<and>
         length (acc_primal_residuals st') = Suc (length (acc_primal_residuals st)) \<and>
         length (acc_dual_residuals st') = Suc (length (acc_dual_residuals st)) \<and>
         tocks st' = Suc (tocks st) \<and>
         oracle_calls st' = oracle_calls st @ [(MinLx, var_rho st), (MinLy, var_rho st)]"
  using assms
  by (auto simp add: ADMM_iteration_def Let_def penalty_parameter_update_frame
      dest: adaptation_condition_Inr split: sum.splits if_splits)


lemma ADMM_iteration_defined:
  assumes "penalty_adaptation_mode params = None_Adaptation \<or>
           penalty_adaptation_period params \<noteq> 0"
  shows "\<exists>out. ADMM_iteration E params c_norm i st = Inr out"
  using assms
  by (auto simp add: ADMM_iteration_def Let_def spectral_condition_def
      adaptation_condition_def remainder_is_zero_def)

subsection \<open>The loop\<close>

text \<open>
  The invariant rule of the loop: a property \<open>I\<close> of counter and state that holds at the
  start and is kept by every iteration that goes on holds when the loop is left, where it
  gives \<open>Q\<close> both at a \<open>break\<close> and at the exit by the iteration limit.
\<close>

lemma ADMM_loop_invariant:
  assumes run: "ADMM_loop E params c_norm i st = Inr st_final"
    and init: "I i st"
    and step: "\<And>i st st'. i < max_iterations params \<Longrightarrow> I i st \<Longrightarrow>
                 ADMM_iteration E params c_norm i st = Inr (Next st') \<Longrightarrow> I (Suc i) st'"
    and brk: "\<And>i st st'. i < max_iterations params \<Longrightarrow> I i st \<Longrightarrow>
                 ADMM_iteration E params c_norm i st = Inr (Break st') \<Longrightarrow> Q st'"
    and exit: "\<And>i st. \<not> i < max_iterations params \<Longrightarrow> I i st \<Longrightarrow> Q st"
  shows "Q st_final"
  using run init
proof (induction n \<equiv> "max_iterations params - i" arbitrary: i st)
  case 0
  then have "\<not> i < max_iterations params"
    by simp
  with "0.prems" show ?case
    by (simp add: ADMM_loop.simps [of E params c_norm i st] exit)
next
  case (Suc n)
  then have less: "i < max_iterations params"
    by simp
  show ?case
  proof (cases "ADMM_iteration E params c_norm i st")
    case (Inl e)
    with less Suc.prems show ?thesis
      by (simp add: ADMM_loop.simps [of E params c_norm i st])
  next
    case (Inr out)
    show ?thesis
    proof (cases out)
      case (Break st')
      with less Inr Suc.prems have "st_final = st'"
        by (simp add: ADMM_loop.simps [of E params c_norm i st])
      with brk [OF less Suc.prems(2)] Inr Break show ?thesis
        by simp
    next
      case (Next st')
      with less Inr Suc.prems
      have "ADMM_loop E params c_norm (Suc i) st' = Inr st_final"
        by (simp add: ADMM_loop.simps [of E params c_norm i st])
      moreover have "I (Suc i) st'"
        using step [OF less Suc.prems(2)] Inr Next by simp
      moreover have "n = max_iterations params - Suc i"
        using Suc.hyps(2) by simp
      ultimately show ?thesis
        using Suc.hyps(1) by blast
    qed
  qed
qed

text \<open>The loop returns, unless a remainder by zero is taken.\<close>

lemma ADMM_loop_defined:
  assumes "penalty_adaptation_mode params = None_Adaptation \<or>
           penalty_adaptation_period params \<noteq> 0"
  shows "\<exists>st'. ADMM_loop E params c_norm i st = Inr st'"
proof (induction n \<equiv> "max_iterations params - i" arbitrary: i st)
  case 0
  then show ?case
    by (simp add: ADMM_loop.simps [of E params c_norm i st])
next
  case (Suc n)
  then have less: "i < max_iterations params"
    by simp
  from ADMM_iteration_defined [OF assms]
  obtain out where out: "ADMM_iteration E params c_norm i st = Inr out"
    by blast
  show ?case
  proof (cases out)
    case (Break st')
    with less out show ?thesis
      by (simp add: ADMM_loop.simps [of E params c_norm i st])
  next
    case (Next st')
    have "n = max_iterations params - Suc i"
      using Suc.hyps(2) by simp
    from Suc.hyps(1) [OF this] less out Next show ?thesis
      by (simp add: ADMM_loop.simps [of E params c_norm i st])
  qed
qed

text \<open>
  A \<open>break\<close> is either the one of the time test, which leaves the state as it was but for the
  status and the count of clock readings, or the one of the residual test.
\<close>

lemma ADMM_iteration_Break_cases:
  assumes "ADMM_iteration E params c_norm i st = Inr (Break st')"
  obtains (elapsed) "env_tock E (tocks st) > max_computation_time params"
      "st' = st\<lparr>tocks := Suc (tocks st), acc_status := ELAPSED_TIME\<rparr>"
    | (residual) "\<not> env_tock E (tocks st) > max_computation_time params"
      "acc_status st' = RESIDUAL_TOLERANCE" "var_rho st' = var_rho st"
      "acc_penalty_parameters st' = acc_penalty_parameters st @ [var_rho st]"
      "length (acc_time st') = Suc (length (acc_time st))"
      "length (acc_primal_residuals st') = Suc (length (acc_primal_residuals st))"
      "length (acc_dual_residuals st') = Suc (length (acc_dual_residuals st))"
      "tocks st' = Suc (tocks st)"
      "oracle_calls st' = oracle_calls st @ [(MinLx, var_rho st), (MinLy, var_rho st)]"
proof (cases "env_tock E (tocks st) > max_computation_time params")
  case True
  with assms ADMM_iteration_elapsed [OF True, of c_norm i] elapsed show ?thesis
    by simp
next
  case False
  with ADMM_iteration_Break [OF assms False] residual show ?thesis
    by blast
qed

text \<open>The state in which the initialisation leaves the variables and the result.\<close>

lemma ADMM_initial_state_simps:
  "var_x (ADMM_initial_state E params) = env_x0 E"
  "var_y (ADMM_initial_state E params) = env_y0 E"
  "var_rho (ADMM_initial_state E params) = rho_initial params"
  "acc_status (ADMM_initial_state E params) = ITERATION_LIMIT"
  "acc_time (ADMM_initial_state E params) = []"
  "acc_primal_residuals (ADMM_initial_state E params) = []"
  "acc_dual_residuals (ADMM_initial_state E params) = []"
  "acc_penalty_parameters (ADMM_initial_state E params) = []"
  "acc_iterates (ADMM_initial_state E params) = []"
  "tocks (ADMM_initial_state E params) = 0"
  "oracle_calls (ADMM_initial_state E params) = []"
  by (simp_all add: ADMM_initial_state_def Let_def)

text \<open>Appending an entry to a sequence whose changes are all accounted for.\<close>

lemma changes_snoc:
  assumes "\<forall>j. Suc j < length pp \<longrightarrow> pp ! Suc j \<noteq> pp ! j \<longrightarrow> T j"
    and "pp \<noteq> [] \<longrightarrow> rho \<noteq> last pp \<longrightarrow> T (length pp - 1)"
  shows "\<forall>j. Suc j < length (pp @ [rho]) \<longrightarrow> (pp @ [rho]) ! Suc j \<noteq> (pp @ [rho]) ! j \<longrightarrow> T j"
proof (intro allI impI)
  fix j
  assume less: "Suc j < length (pp @ [rho])" and neq: "(pp @ [rho]) ! Suc j \<noteq> (pp @ [rho]) ! j"
  show "T j"
  proof (cases "Suc j < length pp")
    case True
    with neq assms(1) show ?thesis
      by (simp add: nth_append)
  next
    case False
    with less have j: "Suc j = length pp"
      by simp
    then have ne: "pp \<noteq> []" and j': "length pp - 1 = j"
      by auto
    from j have "(pp @ [rho]) ! Suc j = rho" and "(pp @ [rho]) ! j = pp ! j"
      by (simp_all add: nth_append)
    moreover from ne j' have "last pp = pp ! j"
      by (simp add: last_conv_nth)
    ultimately show ?thesis
      using neq assms(2) ne j' by simp
  qed
qed

text \<open>A run that ends with \<open>ITERATION_LIMIT\<close> has recorded \<open>max_iterations\<close> iterations.\<close>

lemma ADMM_run_status_lengths:
  assumes "ADMM_run E params = Inr st_final" "acc_status st_final = ITERATION_LIMIT"
  shows "length (acc_time st_final) = max_iterations params \<and>
         length (acc_primal_residuals st_final) = max_iterations params \<and>
         length (acc_dual_residuals st_final) = max_iterations params \<and>
         length (acc_penalty_parameters st_final) = max_iterations params"
proof -
  define I where "I = (\<lambda>i (s::('a, 'b, 'c) admm_state).
    i \<le> max_iterations params \<and> acc_status s = ITERATION_LIMIT \<and>
    length (acc_time s) = i \<and> length (acc_primal_residuals s) = i \<and>
    length (acc_dual_residuals s) = i \<and> length (acc_penalty_parameters s) = i)"
  define Q where "Q = (\<lambda>s::('a, 'b, 'c) admm_state. acc_status s = ITERATION_LIMIT \<longrightarrow>
    length (acc_time s) = max_iterations params \<and>
    length (acc_primal_residuals s) = max_iterations params \<and>
    length (acc_dual_residuals s) = max_iterations params \<and>
    length (acc_penalty_parameters s) = max_iterations params)"
  from assms(1)
  have run: "ADMM_loop E params (dsqrt (env_inner_product_r E (env_c E) (env_c E))) 0
      (ADMM_initial_state E params) = Inr st_final"
    by (simp add: ADMM_run_def)
  have "Q st_final"
  proof (rule ADMM_loop_invariant [OF run, where I = I and Q = Q])
    show "I 0 (ADMM_initial_state E params)"
      by (simp add: I_def ADMM_initial_state_simps)
  next
    fix i s s'
    assume "i < max_iterations params" and inv: "I i s"
      and next_s: "ADMM_iteration E params
        (dsqrt (env_inner_product_r E (env_c E) (env_c E))) i s = Inr (Next s')"
    with ADMM_iteration_Next [OF next_s] show "I (Suc i) s'"
      by (simp add: I_def)
  next
    fix i s s'
    assume inv: "I i s"
      and break_s: "ADMM_iteration E params
        (dsqrt (env_inner_product_r E (env_c E) (env_c E))) i s = Inr (Break s')"
    from break_s inv show "Q s'"
      by (cases rule: ADMM_iteration_Break_cases) (simp_all add: I_def Q_def)
  next
    fix i s
    assume "\<not> i < max_iterations params" "I i s"
    then show "Q s"
      by (simp add: I_def Q_def)
  qed
  with assms(2) show ?thesis
    by (simp add: Q_def)
qed

text \<open>A run without any iteration.\<close>

lemma ADMM_run_no_iteration:
  assumes "max_iterations params = 0 \<or> env_tock E 0 > max_computation_time params"
  shows "ADMM_run E params =
           Inr (if max_iterations params = 0 then ADMM_initial_state E params
                else (ADMM_initial_state E params)\<lparr>tocks := Suc 0, acc_status := ELAPSED_TIME\<rparr>)"
proof (cases "max_iterations params = 0")
  case True
  then show ?thesis
    by (simp add: ADMM_run_def ADMM_loop.simps [of E params _ 0])
next
  case False
  with assms have "env_tock E (tocks (ADMM_initial_state E params)) > max_computation_time params"
    by (simp add: ADMM_initial_state_simps)
  from ADMM_iteration_elapsed [OF this] False show ?thesis
    by (simp add: ADMM_run_def ADMM_loop.simps [of E params _ 0] ADMM_initial_state_simps)
qed

text \<open>
  The calls of the minimisers follow the recorded penalty parameters, and the first of
  these, or the current \<open>rho\<close> while there is none, is the initial \<open>rho\<close>.
\<close>

lemma ADMM_run_recorded:
  assumes "ADMM_run E params = Inr st_final"
  shows "oracle_calls st_final =
           concat (map (\<lambda>rho. [(MinLx, rho), (MinLy, rho)]) (acc_penalty_parameters st_final))"
    and "acc_penalty_parameters st_final \<noteq> [] \<Longrightarrow>
           hd (acc_penalty_parameters st_final) = rho_initial params"
proof -
  define I where "I = (\<lambda>(i::nat) (s::('a, 'b, 'c) admm_state).
    oracle_calls s =
      concat (map (\<lambda>rho. [(MinLx, rho), (MinLy, rho)]) (acc_penalty_parameters s)) \<and>
    hd (acc_penalty_parameters s @ [var_rho s]) = rho_initial params)"
  from assms
  have run: "ADMM_loop E params (dsqrt (env_inner_product_r E (env_c E) (env_c E))) 0
      (ADMM_initial_state E params) = Inr st_final"
    by (simp add: ADMM_run_def)
  have "I 0 st_final"
  proof (rule ADMM_loop_invariant [OF run, where I = I and Q = "I 0"])
    show "I 0 (ADMM_initial_state E params)"
      by (simp add: I_def ADMM_initial_state_simps)
  next
    fix i s s'
    assume inv: "I i s"
      and next_s: "ADMM_iteration E params
        (dsqrt (env_inner_product_r E (env_c E) (env_c E))) i s = Inr (Next s')"
    from ADMM_iteration_Next [OF next_s] inv show "I (Suc i) s'"
      by (auto simp add: I_def hd_append split: if_splits)
  next
    fix i s s'
    assume inv: "I i s"
      and break_s: "ADMM_iteration E params
        (dsqrt (env_inner_product_r E (env_c E) (env_c E))) i s = Inr (Break s')"
    from break_s inv show "I 0 s'"
      by (cases rule: ADMM_iteration_Break_cases) (auto simp add: I_def hd_append split: if_splits)
  next
    fix i s
    assume "I i s"
    then show "I 0 s"
      by (simp add: I_def)
  qed
  then show "oracle_calls st_final =
      concat (map (\<lambda>rho. [(MinLx, rho), (MinLy, rho)]) (acc_penalty_parameters st_final))"
    and "acc_penalty_parameters st_final \<noteq> [] \<Longrightarrow>
      hd (acc_penalty_parameters st_final) = rho_initial params"
    by (auto simp add: I_def hd_append split: if_splits)
qed

subsection \<open>Evaluation\<close>

text \<open>
  The equations that evaluate the solver at a given input. They are used with the weak
  congruence rule of \<open>let\<close>, so that a bound value is evaluated before it is substituted.
\<close>

lemmas solver_eval =
  ADMM_def ADMM_single_def ADMM_run_def ADMM_output_def ADMM_initial_state_def
  ADMM_loop.simps ADMM_iteration_def penalty_parameter_update_def spectral_condition_def
  adaptation_condition_def remainder_is_zero_def residual_balance_penalty_parameter_update_def
  spectral_penalty_parameter_update_def std_max3_def scalar_env_def ADMMParams_default_def
  Let_def double_ops

section \<open>Verified properties\<close>

text \<open>
  Claim C1. The residual balancing update is a function of its five arguments alone: it
  returns \<open>tau * rho\<close> when the primal residual exceeds \<open>mu\<close> times the dual one, otherwise
  \<open>rho / tau\<close> when the dual residual exceeds \<open>mu\<close> times the primal one, and otherwise \<open>rho\<close>
  itself. This holds for all arguments, in particular for \<open>mu > 1\<close>, \<open>tau > 1\<close> and
  \<open>rho > 0\<close>.
\<close>

theorem residual_balance_cases:
  "(p > mu * d \<longrightarrow>
      residual_balance_penalty_parameter_update p d mu tau rho = tau * rho) \<and>
   (\<not> p > mu * d \<and> d > mu * p \<longrightarrow>
      residual_balance_penalty_parameter_update p d mu tau rho = rho / tau) \<and>
   (\<not> p > mu * d \<and> \<not> d > mu * p \<longrightarrow>
      residual_balance_penalty_parameter_update p d mu tau rho = rho)"
  by (simp add: residual_balance_penalty_parameter_update_def)

theorem residual_balance_cases_witness:
  "Fin 30 > Fin 10 * Fin 2 \<and>
   residual_balance_penalty_parameter_update (Fin 30) (Fin 2) (Fin 10) (Fin 2) (Fin 3) = Fin 6 \<and>
   \<not> Fin 1 > Fin 10 * Fin 20 \<and> Fin 20 > Fin 10 * Fin 1 \<and>
   residual_balance_penalty_parameter_update (Fin 1) (Fin 20) (Fin 10) (Fin 2) (Fin 3) = Fin (3 / 2) \<and>
   \<not> Fin 5 > Fin 10 * Fin 4 \<and> \<not> Fin 4 > Fin 10 * Fin 5 \<and>
   residual_balance_penalty_parameter_update (Fin 5) (Fin 4) (Fin 10) (Fin 2) (Fin 3) = Fin 3"
proof -
  have h1: "Fin 30 > Fin 10 * Fin 2"
    by (simp add: double_ops)
  have h2: "\<not> Fin 1 > Fin 10 * Fin 20 \<and> Fin 20 > Fin 10 * Fin 1"
    by (simp add: double_ops)
  have h3: "\<not> Fin 5 > Fin 10 * Fin 4 \<and> \<not> Fin 4 > Fin 10 * Fin 5"
    by (simp add: double_ops)
  have v1: "Fin 2 * Fin 3 = Fin 6" and v2: "Fin 3 / Fin 2 = Fin (3 / 2)"
    by (simp_all add: double_ops)
  from residual_balance_cases [where p = "Fin 30" and d = "Fin 2" and mu = "Fin 10" and tau = "Fin 2" and rho = "Fin 3"] h1 v1
  have r1: "residual_balance_penalty_parameter_update (Fin 30) (Fin 2) (Fin 10) (Fin 2) (Fin 3)
              = Fin 6"
    by simp
  from residual_balance_cases [where p = "Fin 1" and d = "Fin 20" and mu = "Fin 10" and tau = "Fin 2" and rho = "Fin 3"] h2 v2
  have r2: "residual_balance_penalty_parameter_update (Fin 1) (Fin 20) (Fin 10) (Fin 2) (Fin 3)
              = Fin (3 / 2)"
    by simp
  from residual_balance_cases [where p = "Fin 5" and d = "Fin 4" and mu = "Fin 10" and tau = "Fin 2" and rho = "Fin 3"] h3
  have r3: "residual_balance_penalty_parameter_update (Fin 5) (Fin 4) (Fin 10) (Fin 2) (Fin 3)
              = Fin 3"
    by simp
  from h1 h2 h3 r1 r2 r3 show ?thesis
    by blast
qed

text \<open>
  Claim C2, as amended. The hybrid step sizes are \<open>alpha = alpha_MG\<close> when
  \<open>2 * alpha_MG > alpha_SD\<close> and \<open>alpha_SD - alpha_MG / 2\<close> otherwise, and \<open>beta\<close> likewise. The
  update returns \<open>sqrt (alpha * beta)\<close> when both correlations exceed \<open>eps_cor\<close>, \<open>alpha\<close> when
  \<open>alpha_cor\<close> exceeds it and \<open>beta_cor <= eps_cor\<close>, \<open>beta\<close> when \<open>beta_cor\<close> exceeds it and
  \<open>alpha_cor <= eps_cor\<close>, and the current \<open>rho\<close> when neither exceeds it and also whenever a
  correlation is NaN, the other exceeding \<open>eps_cor\<close> or not: a NaN neither exceeds \<open>eps_cor\<close>
  nor is \<open><=\<close> it.
\<close>

theorem spectral_safeguard_selection:
  fixes inner_product :: "'r \<Rightarrow> 'r \<Rightarrow> double"
    and delta_lambda_hat delta_lambda delta_H_hat delta_G_hat :: 'r
    and eps_cor rho :: double
  defines "alpha_SD \<equiv> stepsize_SD inner_product delta_lambda_hat delta_H_hat"
    and "alpha_MG \<equiv> stepsize_MG inner_product delta_lambda_hat delta_H_hat"
    and "beta_SD \<equiv> stepsize_SD inner_product delta_lambda delta_G_hat"
    and "beta_MG \<equiv> stepsize_MG inner_product delta_lambda delta_G_hat"
    and "alpha \<equiv> stepsize inner_product delta_lambda_hat delta_H_hat"
    and "beta \<equiv> stepsize inner_product delta_lambda delta_G_hat"
    and "alpha_cor \<equiv> correlation inner_product delta_lambda_hat delta_H_hat"
    and "beta_cor \<equiv> correlation inner_product delta_lambda delta_G_hat"
    and "rho_new \<equiv> spectral_penalty_parameter_update delta_lambda_hat delta_lambda
                      delta_H_hat delta_G_hat inner_product eps_cor rho"
  shows "alpha = (if Fin 2 * alpha_MG > alpha_SD then alpha_MG
                  else alpha_SD - alpha_MG / Fin 2) \<and>
         beta = (if Fin 2 * beta_MG > beta_SD then beta_MG else beta_SD - beta_MG / Fin 2) \<and>
         (alpha_cor > eps_cor \<and> beta_cor > eps_cor \<longrightarrow> rho_new = dsqrt (alpha * beta)) \<and>
         (alpha_cor > eps_cor \<and> beta_cor \<le> eps_cor \<longrightarrow> rho_new = alpha) \<and>
         (alpha_cor \<le> eps_cor \<and> beta_cor > eps_cor \<longrightarrow> rho_new = beta) \<and>
         (\<not> alpha_cor > eps_cor \<and> \<not> beta_cor > eps_cor \<longrightarrow> rho_new = rho) \<and>
         (is_nan alpha_cor \<or> is_nan beta_cor \<longrightarrow> rho_new = rho)"
proof -
  have nan_le: "\<not> a \<le> b" and nan_gt: "\<not> a > b" if "is_nan a" for a b :: double
    using that by (simp_all add: less_eq_double_def less_double_def dlt_def)
  have le_gt: "\<not> a > b" if "a \<le> b" for a b :: double
    using that by (simp add: less_eq_double_def less_double_def)
  show ?thesis
    unfolding assms spectral_penalty_parameter_update_unfold
    using nan_le nan_gt le_gt
    by (auto simp add: stepsize_def hybrid_stepsize_def)
qed

text \<open>
  The selection at five inputs with the product as inner product and \<open>eps_cor = 0.2\<close>, one
  for each case: both correlations are 1; \<open>beta_cor\<close> is -1; \<open>alpha_cor\<close> is -1; both are
  -1; \<open>beta_cor\<close> is NaN.
\<close>

theorem spectral_safeguard_selection_witness:
  "spectral_penalty_parameter_update (Fin 2) (Fin 1) (Fin 1) (Fin 1) (*) (Fin (1 / 5)) (Fin 5)
     = dsqrt (Fin 2 * Fin 1) \<and>
   spectral_penalty_parameter_update (Fin 2) (Fin 1) (Fin 1) (Fin (- 1)) (*) (Fin (1 / 5)) (Fin 5)
     = Fin 2 \<and>
   spectral_penalty_parameter_update (Fin 2) (Fin 1) (Fin (- 1)) (Fin 1) (*) (Fin (1 / 5)) (Fin 5)
     = Fin 1 \<and>
   spectral_penalty_parameter_update (Fin 2) (Fin 1) (Fin (- 1)) (Fin (- 1)) (*) (Fin (1 / 5))
     (Fin 5) = Fin 5 \<and>
   spectral_penalty_parameter_update (Fin 2) (Fin 1) (Fin 1) (Fin 0) (*) (Fin (1 / 5)) (Fin 5)
     = Fin 5"
proof -
  have cor: "correlation (*) (Fin 2) (Fin 1) > Fin (1 / 5)"
      "correlation (*) (Fin 1) (Fin 1) > Fin (1 / 5)"
      "correlation (*) (Fin 2) (Fin (- 1)) \<le> Fin (1 / 5)"
      "correlation (*) (Fin 1) (Fin (- 1)) \<le> Fin (1 / 5)"
      "\<not> correlation (*) (Fin 2) (Fin (- 1)) > Fin (1 / 5)"
      "\<not> correlation (*) (Fin 1) (Fin (- 1)) > Fin (1 / 5)"
      "is_nan (correlation (*) (Fin 1) (Fin 0))"
    by (simp_all add: correlation_def double_ops)
  have step: "stepsize (*) (Fin 2) (Fin 1) = Fin 2" "stepsize (*) (Fin 1) (Fin 1) = Fin 1"
    by (simp_all add: stepsize_def stepsize_SD_def stepsize_MG_def hybrid_stepsize_def
        double_ops)
  note sel = spectral_safeguard_selection [where inner_product = "(*)" and
      delta_lambda_hat = "Fin 2" and delta_lambda = "Fin 1" and eps_cor = "Fin (1 / 5)" and
      rho = "Fin 5"]
  from sel [where delta_H_hat = "Fin 1" and delta_G_hat = "Fin 1"] cor step
  have both: "spectral_penalty_parameter_update (Fin 2) (Fin 1) (Fin 1) (Fin 1) (*)
      (Fin (1 / 5)) (Fin 5) = dsqrt (Fin 2 * Fin 1)"
    by simp
  from sel [where delta_H_hat = "Fin 1" and delta_G_hat = "Fin (- 1)"] cor step
  have only_alpha: "spectral_penalty_parameter_update (Fin 2) (Fin 1) (Fin 1) (Fin (- 1)) (*)
      (Fin (1 / 5)) (Fin 5) = Fin 2"
    by simp
  from sel [where delta_H_hat = "Fin (- 1)" and delta_G_hat = "Fin 1"] cor step
  have only_beta: "spectral_penalty_parameter_update (Fin 2) (Fin 1) (Fin (- 1)) (Fin 1) (*)
      (Fin (1 / 5)) (Fin 5) = Fin 1"
    by simp
  from sel [where delta_H_hat = "Fin (- 1)" and delta_G_hat = "Fin (- 1)"] cor
  have neither: "spectral_penalty_parameter_update (Fin 2) (Fin 1) (Fin (- 1)) (Fin (- 1)) (*)
      (Fin (1 / 5)) (Fin 5) = Fin 5"
    by simp
  from sel [where delta_H_hat = "Fin 1" and delta_G_hat = "Fin 0"] cor
  have nan: "spectral_penalty_parameter_update (Fin 2) (Fin 1) (Fin 1) (Fin 0) (*)
      (Fin (1 / 5)) (Fin 5) = Fin 5"
    by (simp add: is_nan_def less_double_def dlt_def)
  from both only_alpha only_beta neither nan show ?thesis
    by simp
qed

text \<open>
  The claim as it was stated fails where \<open>delta_G_hat\<close> is zero, as it is when \<open>y\<close> has not
  moved since the last update: \<open>beta_cor\<close> is \<open>0 / 0\<close>, so only \<open>alpha_cor = 1\<close> exceeds
  \<open>eps_cor = 0.2\<close>, and yet the update returns the current \<open>rho = 5\<close> and not \<open>alpha = 1\<close>.
\<close>

theorem spectral_only_alpha_counterexample:
  "correlation (*) (Fin 1) (Fin 1) > Fin (1 / 5) \<and>
   \<not> correlation (*) (Fin 1) (Fin 0) > Fin (1 / 5) \<and>
   stepsize (*) (Fin 1) (Fin 1) = Fin 1 \<and>
   spectral_penalty_parameter_update (Fin 1) (Fin 1) (Fin 1) (Fin 0) (*) (Fin (1 / 5)) (Fin 5)
     = Fin 5 \<and>
   spectral_penalty_parameter_update (Fin 1) (Fin 1) (Fin 1) (Fin 0) (*) (Fin (1 / 5)) (Fin 5)
     \<noteq> stepsize (*) (Fin 1) (Fin 1)"
  by (simp add: spectral_penalty_parameter_update_unfold correlation_def stepsize_def
      stepsize_SD_def stepsize_MG_def hybrid_stepsize_def double_ops)




text \<open>
  Claim C4. Whatever the mode, the period and the window: an iteration \<open>i\<close> that goes on to
  the next one with a changed \<open>rho\<close> has a mode other than \<open>None\<close>, \<open>i mod period = 0\<close> (for a
  non-zero period) and \<open>i < window\<close>; an iteration that ends in \<open>break\<close> leaves \<open>rho\<close> as it
  was. So in the penalty parameters recorded by a run, entry \<open>j + 1\<close> differs from entry
  \<open>j\<close> only if iteration \<open>j\<close> satisfies the three conditions, likewise the final \<open>rho\<close> and
  the last entry, and with the mode \<open>None\<close> every entry and the final \<open>rho\<close> are the initial
  \<open>rho\<close>.
\<close>

theorem penalty_adaptation_gating:
  "(ADMM_iteration E params c_norm i st = Inr (Next st') \<and> var_rho st' \<noteq> var_rho st \<longrightarrow>
      penalty_adaptation_mode params \<noteq> None_Adaptation \<and>
      penalty_adaptation_period params \<noteq> 0 \<and>
      i mod penalty_adaptation_period params = 0 \<and> i < penalty_adaptation_window params) \<and>
   (ADMM_iteration E params c_norm i st = Inr (Break st') \<longrightarrow> var_rho st' = var_rho st) \<and>
   (ADMM_run E params = Inr st_final \<longrightarrow>
      (\<forall>j. Suc j < length (acc_penalty_parameters st_final) \<longrightarrow>
           acc_penalty_parameters st_final ! Suc j \<noteq> acc_penalty_parameters st_final ! j \<longrightarrow>
           penalty_adaptation_mode params \<noteq> None_Adaptation \<and>
           penalty_adaptation_period params \<noteq> 0 \<and>
           j mod penalty_adaptation_period params = 0 \<and>
           j < penalty_adaptation_window params) \<and>
      (acc_penalty_parameters st_final \<noteq> [] \<longrightarrow>
         var_rho st_final \<noteq> last (acc_penalty_parameters st_final) \<longrightarrow>
           penalty_adaptation_mode params \<noteq> None_Adaptation \<and>
           penalty_adaptation_period params \<noteq> 0 \<and>
           (length (acc_penalty_parameters st_final) - 1) mod penalty_adaptation_period params
             = 0 \<and>
           length (acc_penalty_parameters st_final) - 1 < penalty_adaptation_window params) \<and>
      (penalty_adaptation_mode params = None_Adaptation \<longrightarrow>
         var_rho st_final = rho_initial params \<and>
         (\<forall>rho \<in> set (acc_penalty_parameters st_final). rho = rho_initial params)))"
proof (intro conjI impI)
  assume "ADMM_iteration E params c_norm i st = Inr (Next st') \<and> var_rho st' \<noteq> var_rho st"
  with ADMM_iteration_Next [of E params c_norm i st st']
  show "penalty_adaptation_mode params \<noteq> None_Adaptation"
    and "penalty_adaptation_period params \<noteq> 0"
    and "i mod penalty_adaptation_period params = 0"
    and "i < penalty_adaptation_window params"
    by blast+
next
  assume "ADMM_iteration E params c_norm i st = Inr (Break st')"
  then show "var_rho st' = var_rho st"
    by (cases rule: ADMM_iteration_Break_cases) simp_all
next
  define T where "T = (\<lambda>j. penalty_adaptation_mode params \<noteq> None_Adaptation \<and>
    penalty_adaptation_period params \<noteq> 0 \<and>
    j mod penalty_adaptation_period params = 0 \<and> j < penalty_adaptation_window params)"
  define G where "G = (\<lambda>s::('a, 'b, 'c) admm_state.
    (\<forall>j. Suc j < length (acc_penalty_parameters s) \<longrightarrow>
       acc_penalty_parameters s ! Suc j \<noteq> acc_penalty_parameters s ! j \<longrightarrow> T j) \<and>
    (acc_penalty_parameters s \<noteq> [] \<longrightarrow> var_rho s \<noteq> last (acc_penalty_parameters s) \<longrightarrow>
       T (length (acc_penalty_parameters s) - 1)) \<and>
    (penalty_adaptation_mode params = None_Adaptation \<longrightarrow>
       var_rho s = rho_initial params \<and>
       (\<forall>rho \<in> set (acc_penalty_parameters s). rho = rho_initial params)))"
  define I where "I = (\<lambda>(i::nat) s. length (acc_penalty_parameters s) = i \<and> G s)"
  assume "ADMM_run E params = Inr st_final"
  then have run: "ADMM_loop E params (dsqrt (env_inner_product_r E (env_c E) (env_c E))) 0
      (ADMM_initial_state E params) = Inr st_final"
    by (simp add: ADMM_run_def)
  have "G st_final"
  proof (rule ADMM_loop_invariant [OF run, where I = I and Q = G])
    show "I 0 (ADMM_initial_state E params)"
      by (simp add: I_def G_def ADMM_initial_state_simps)
  next
    fix i s s'
    assume inv: "I i s"
      and next_s: "ADMM_iteration E params
        (dsqrt (env_inner_product_r E (env_c E) (env_c E))) i s = Inr (Next s')"
    note n = ADMM_iteration_Next [OF next_s]
    from inv have len: "length (acc_penalty_parameters s) = i" and g: "G s"
      by (simp_all add: I_def)
    from n have pp: "acc_penalty_parameters s' = acc_penalty_parameters s @ [var_rho s]"
      by simp
    from n len have chg: "var_rho s' \<noteq> var_rho s \<longrightarrow> T i"
      by (simp add: T_def)
    have "\<forall>j. Suc j < length (acc_penalty_parameters s') \<longrightarrow>
       acc_penalty_parameters s' ! Suc j \<noteq> acc_penalty_parameters s' ! j \<longrightarrow> T j"
      unfolding pp using g by (intro changes_snoc) (simp_all add: G_def)
    moreover have "var_rho s' \<noteq> last (acc_penalty_parameters s') \<longrightarrow>
        T (length (acc_penalty_parameters s') - 1)"
      using chg len by (simp add: pp)
    moreover have "penalty_adaptation_mode params = None_Adaptation \<longrightarrow>
       var_rho s' = rho_initial params \<and>
       (\<forall>rho \<in> set (acc_penalty_parameters s'). rho = rho_initial params)"
      using g chg by (auto simp add: G_def pp T_def)
    ultimately show "I (Suc i) s'"
      using len by (simp add: I_def G_def pp)
  next
    fix i s s'
    assume inv: "I i s"
      and break_s: "ADMM_iteration E params
        (dsqrt (env_inner_product_r E (env_c E) (env_c E))) i s = Inr (Break s')"
    from inv have g: "G s"
      by (simp add: I_def)
    from break_s show "G s'"
    proof (cases rule: ADMM_iteration_Break_cases)
      case elapsed
      with g show ?thesis
        by (simp add: G_def)
    next
      case residual
      have "\<forall>j. Suc j < length (acc_penalty_parameters s') \<longrightarrow>
         acc_penalty_parameters s' ! Suc j \<noteq> acc_penalty_parameters s' ! j \<longrightarrow> T j"
        unfolding residual(4) using g by (intro changes_snoc) (simp_all add: G_def)
      with g residual show ?thesis
        by (auto simp add: G_def)
    qed
  next
    fix i s
    assume "I i s"
    then show "G s"
      by (simp add: I_def)
  qed
  then show "\<forall>j. Suc j < length (acc_penalty_parameters st_final) \<longrightarrow>
           acc_penalty_parameters st_final ! Suc j \<noteq> acc_penalty_parameters st_final ! j \<longrightarrow>
           penalty_adaptation_mode params \<noteq> None_Adaptation \<and>
           penalty_adaptation_period params \<noteq> 0 \<and>
           j mod penalty_adaptation_period params = 0 \<and>
           j < penalty_adaptation_window params"
    and "acc_penalty_parameters st_final \<noteq> [] \<Longrightarrow>
         var_rho st_final \<noteq> last (acc_penalty_parameters st_final) \<Longrightarrow>
           penalty_adaptation_mode params \<noteq> None_Adaptation"
    and "acc_penalty_parameters st_final \<noteq> [] \<Longrightarrow>
         var_rho st_final \<noteq> last (acc_penalty_parameters st_final) \<Longrightarrow>
           penalty_adaptation_period params \<noteq> 0"
    and "acc_penalty_parameters st_final \<noteq> [] \<Longrightarrow>
         var_rho st_final \<noteq> last (acc_penalty_parameters st_final) \<Longrightarrow>
           (length (acc_penalty_parameters st_final) - 1) mod penalty_adaptation_period params
             = 0"
    and "acc_penalty_parameters st_final \<noteq> [] \<Longrightarrow>
         var_rho st_final \<noteq> last (acc_penalty_parameters st_final) \<Longrightarrow>
           length (acc_penalty_parameters st_final) - 1 < penalty_adaptation_window params"
    and "penalty_adaptation_mode params = None_Adaptation \<Longrightarrow>
         var_rho st_final = rho_initial params"
    and "penalty_adaptation_mode params = None_Adaptation \<Longrightarrow>
         \<forall>rho \<in> set (acc_penalty_parameters st_final). rho = rho_initial params"
    by (simp_all add: G_def T_def)
qed

text \<open>
  Three iterations of residual balancing with the default period 2: \<open>rho\<close> changes after
  iterations 0 and 2, and not after iteration 1.
\<close>

theorem penalty_adaptation_gating_witness:
  "\<exists>st. ADMM_run (scalar_env (Fin 1) (Fin 0) (\<lambda>k. Fin 0))
           ((ADMMParams_default 3 (Fin 1))\<lparr>penalty_adaptation_mode := Residual_Balance\<rparr>)
         = Inr st \<and>
        acc_penalty_parameters st = [Fin 1, Fin 2, Fin 2] \<and> var_rho st = Fin 4 \<and>
        (0::nat) mod 2 = 0 \<and> (2::nat) mod 2 = 0 \<and> (1::nat) mod 2 \<noteq> 0"
proof -
  let ?params = "(ADMMParams_default 3 (Fin 1))\<lparr>penalty_adaptation_mode := Residual_Balance\<rparr>"
  let ?E = "scalar_env (Fin 1) (Fin 0) (\<lambda>k. Fin 0)"
  have "\<exists>st. ADMM_run ?E ?params = Inr st \<and>
      acc_penalty_parameters st = [Fin 1, Fin 2, Fin 2] \<and> var_rho st = Fin 4"
    by (simp add: solver_eval cong: let_weak_cong)
  then obtain st where st: "ADMM_run ?E ?params = Inr st"
      "acc_penalty_parameters st = [Fin 1, Fin 2, Fin 2]" "var_rho st = Fin 4"
    by blast
  have p: "penalty_adaptation_period ?params = 2"
    by (simp add: ADMMParams_default_def)
  from penalty_adaptation_gating [where E = ?E and params = ?params and st_final = st] st(1)
  have "\<forall>j. Suc j < length (acc_penalty_parameters st) \<longrightarrow>
           acc_penalty_parameters st ! Suc j \<noteq> acc_penalty_parameters st ! j \<longrightarrow>
           j mod penalty_adaptation_period ?params = 0"
    and "acc_penalty_parameters st \<noteq> [] \<longrightarrow>
         var_rho st \<noteq> last (acc_penalty_parameters st) \<longrightarrow>
           (length (acc_penalty_parameters st) - 1) mod penalty_adaptation_period ?params = 0"
    by blast+
  from this(1) [rule_format, of 0] this(2) st(2,3) p
  have "(0::nat) mod 2 = 0" and "(2::nat) mod 2 = 0"
    by (simp_all add: double_ops)
  with st show ?thesis
    by auto
qed

text \<open>
  Claim C5. Take an iteration that gets to its dual update: the time test has let it pass,
  and the mode is not \<open>Spectral\<close> with a zero period (whose remainder, taken before the dual
  update, is undefined). With \<open>x\<close> and \<open>y\<close> the new iterates, \<open>lambda\<close> the dual variable
  after the update, \<open>r\<close> and \<open>s\<close> the residual vectors and \<open>c_norm\<close> the norm of \<open>c\<close>, the
  iteration ends the loop with status \<open>RESIDUAL_TOLERANCE\<close> exactly when
  \<open>norm r < eps_abs_pri + eps_rel * max {norm (A x), norm (B y), norm c}\<close> and
  \<open>norm s < eps_abs_dual + eps_rel * norm (At lambda)\<close>, and it then leaves \<open>x\<close>, \<open>y\<close> and
  \<open>lambda\<close> in the state and the two norms last in the recorded residuals.
\<close>

theorem residual_tolerance_test:
  fixes E :: "('x::minus, 'y::minus, 'r::{plus, minus, uminus}) admm_env"
  assumes "\<not> env_tock E (tocks st) > max_computation_time params"
    and "penalty_adaptation_mode params \<noteq> Spectral \<or>
         penalty_adaptation_period params \<noteq> 0"
  defines "c_norm \<equiv> dsqrt (env_inner_product_r E (env_c E) (env_c E))"
    and "x \<equiv> env_minLx E (var_x st) (var_y st) (var_lambda st) (var_rho st)"
  defines "y \<equiv> env_minLy E x (var_y st) (var_lambda st) (var_rho st)"
  defines "r \<equiv> env_A E x + env_B E y - env_c E"
    and "s \<equiv> env_scale_x E (var_rho st) (env_At E (env_B E (y - var_y_prev st)))"
  defines "lambda \<equiv> var_lambda st + env_scale_r E (var_rho st) r"
    and "primal_residual \<equiv> dsqrt (env_inner_product_r E r r)"
    and "dual_residual \<equiv> dsqrt (env_inner_product_x E s s)"
    and "eps_pri \<equiv> eps_abs_pri params + eps_rel params *
           std_max3 (dsqrt (env_inner_product_r E (env_A E x) (env_A E x)))
             (dsqrt (env_inner_product_r E (env_B E y) (env_B E y))) c_norm"
  defines "eps_dual \<equiv> eps_abs_dual params + eps_rel params *
           dsqrt (env_inner_product_x E (env_At E lambda) (env_At E lambda))"
  shows "((\<exists>st'. ADMM_iteration E params c_norm i st = Inr (Break st') \<and>
                acc_status st' = RESIDUAL_TOLERANCE) =
          (primal_residual < eps_pri \<and> dual_residual < eps_dual)) \<and>
         (\<forall>st'. ADMM_iteration E params c_norm i st = Inr (Break st') \<longrightarrow>
                var_x st' = x \<and> var_y st' = y \<and> var_lambda st' = lambda \<and>
                last (acc_primal_residuals st') = primal_residual \<and>
                last (acc_dual_residuals st') = dual_residual)"
  using assms(1,2)
  unfolding c_norm_def x_def y_def r_def s_def lambda_def primal_residual_def
    dual_residual_def eps_pri_def eps_dual_def
  by (auto simp add: ADMM_iteration_def Let_def spectral_condition_def remainder_is_zero_def
      split: sum.splits)

text \<open>
  With minimisers that return 0, the first iteration has both residuals 0, below the
  tolerances 0.01, and ends the loop with \<open>RESIDUAL_TOLERANCE\<close>.
\<close>

theorem residual_tolerance_test_witness:
  "\<not> env_tock (scalar_env (Fin 0) (Fin 0) (\<lambda>k. Fin 0)) 0
       > max_computation_time (ADMMParams_default 2 (Fin 1)) \<and>
   penalty_adaptation_mode (ADMMParams_default 2 (Fin 1)) \<noteq> Spectral \<and>
   (\<exists>st'. ADMM_iteration (scalar_env (Fin 0) (Fin 0) (\<lambda>k. Fin 0))
            (ADMMParams_default 2 (Fin 1)) (dsqrt (Fin 0 * Fin 0)) 0
            (ADMM_initial_state (scalar_env (Fin 0) (Fin 0) (\<lambda>k. Fin 0))
               (ADMMParams_default 2 (Fin 1))) = Inr (Break st') \<and>
          acc_status st' = RESIDUAL_TOLERANCE)"
proof -
  let ?E = "scalar_env (Fin 0) (Fin 0) (\<lambda>k. Fin 0)"
  let ?params = "ADMMParams_default 2 (Fin 1)"
  let ?st = "ADMM_initial_state ?E ?params"
  have h1: "\<not> env_tock ?E (tocks ?st) > max_computation_time ?params"
    by (simp add: scalar_env_def ADMMParams_default_def ADMM_initial_state_simps double_ops)
  have h2: "penalty_adaptation_mode ?params \<noteq> Spectral \<or>
      penalty_adaptation_period ?params \<noteq> 0"
    by (simp add: ADMMParams_default_def)
  have c: "env_inner_product_r ?E (env_c ?E) (env_c ?E) = Fin 0 * Fin 0"
    by (simp add: scalar_env_def)
  from residual_tolerance_test [OF h1 h2, THEN conjunct1]
  have "\<exists>st'. ADMM_iteration ?E ?params (dsqrt (Fin 0 * Fin 0)) 0 ?st = Inr (Break st') \<and>
      acc_status st' = RESIDUAL_TOLERANCE"
    unfolding c
    by (simp add: scalar_env_def ADMMParams_default_def ADMM_initial_state_def std_max3_def
        Let_def double_ops cong: let_weak_cong)
  with h1 show ?thesis
    by (simp add: ADMMParams_default_def ADMM_initial_state_simps)
qed

text \<open>
  Claim C6. In every iteration the time test comes first: when the clock reading exceeds
  \<open>max_computation_time\<close>, the iteration ends the loop with status \<open>ELAPSED_TIME\<close> in the
  state it started from, only the status and the count of clock readings changed; no
  minimiser has been called and nothing has been recorded. So when a run ends with
  \<open>ELAPSED_TIME\<close>, the minimisers have been called once each for every recorded iteration
  and not once more, the four recorded sequences have the same length, and the clock
  reading that follows the recorded ones is the one that exceeded the limit.
\<close>

theorem elapsed_time_test_first:
  "(env_tock E (tocks st) > max_computation_time params \<longrightarrow>
      ADMM_iteration E params c_norm i st =
        Inr (Break (st\<lparr>tocks := Suc (tocks st), acc_status := ELAPSED_TIME\<rparr>))) \<and>
   (ADMM_run E params = Inr st_final \<and> acc_status st_final = ELAPSED_TIME \<longrightarrow>
      env_tock E (length (acc_time st_final)) > max_computation_time params \<and>
      tocks st_final = Suc (length (acc_time st_final)) \<and>
      oracle_calls st_final =
        concat (map (\<lambda>rho. [(MinLx, rho), (MinLy, rho)]) (acc_penalty_parameters st_final)) \<and>
      length (acc_penalty_parameters st_final) = length (acc_time st_final) \<and>
      length (acc_primal_residuals st_final) = length (acc_time st_final) \<and>
      length (acc_dual_residuals st_final) = length (acc_time st_final))"
proof (intro conjI impI)
  assume "env_tock E (tocks st) > max_computation_time params"
  then show "ADMM_iteration E params c_norm i st =
      Inr (Break (st\<lparr>tocks := Suc (tocks st), acc_status := ELAPSED_TIME\<rparr>))"
    by (rule ADMM_iteration_elapsed)
next
  define I where "I = (\<lambda>(i::nat) (s::('a, 'b, 'c) admm_state).
    acc_status s = ITERATION_LIMIT \<and> tocks s = length (acc_time s) \<and>
    oracle_calls s =
      concat (map (\<lambda>rho. [(MinLx, rho), (MinLy, rho)]) (acc_penalty_parameters s)) \<and>
    length (acc_penalty_parameters s) = length (acc_time s) \<and>
    length (acc_primal_residuals s) = length (acc_time s) \<and>
    length (acc_dual_residuals s) = length (acc_time s))"
  define Q where "Q = (\<lambda>s::('a, 'b, 'c) admm_state. acc_status s = ELAPSED_TIME \<longrightarrow>
    env_tock E (length (acc_time s)) > max_computation_time params \<and>
    tocks s = Suc (length (acc_time s)) \<and>
    oracle_calls s =
      concat (map (\<lambda>rho. [(MinLx, rho), (MinLy, rho)]) (acc_penalty_parameters s)) \<and>
    length (acc_penalty_parameters s) = length (acc_time s) \<and>
    length (acc_primal_residuals s) = length (acc_time s) \<and>
    length (acc_dual_residuals s) = length (acc_time s))"
  assume a: "ADMM_run E params = Inr st_final \<and> acc_status st_final = ELAPSED_TIME"
  then have run: "ADMM_loop E params (dsqrt (env_inner_product_r E (env_c E) (env_c E))) 0
      (ADMM_initial_state E params) = Inr st_final"
    by (simp add: ADMM_run_def)
  have "Q st_final"
  proof (rule ADMM_loop_invariant [OF run, where I = I and Q = Q])
    show "I 0 (ADMM_initial_state E params)"
      by (simp add: I_def ADMM_initial_state_simps)
  next
    fix i s s'
    assume inv: "I i s"
      and next_s: "ADMM_iteration E params
        (dsqrt (env_inner_product_r E (env_c E) (env_c E))) i s = Inr (Next s')"
    from ADMM_iteration_Next [OF next_s] inv show "I (Suc i) s'"
      by (simp add: I_def)
  next
    fix i s s'
    assume inv: "I i s"
      and break_s: "ADMM_iteration E params
        (dsqrt (env_inner_product_r E (env_c E) (env_c E))) i s = Inr (Break s')"
    from break_s inv show "Q s'"
      by (cases rule: ADMM_iteration_Break_cases) (simp_all add: I_def Q_def)
  next
    fix i s
    assume "I i s"
    then show "Q s"
      by (simp add: I_def Q_def)
  qed
  with a show "env_tock E (length (acc_time st_final)) > max_computation_time params"
    and "tocks st_final = Suc (length (acc_time st_final))"
    and "oracle_calls st_final =
        concat (map (\<lambda>rho. [(MinLx, rho), (MinLy, rho)]) (acc_penalty_parameters st_final))"
    and "length (acc_penalty_parameters st_final) = length (acc_time st_final)"
    and "length (acc_primal_residuals st_final) = length (acc_time st_final)"
    and "length (acc_dual_residuals st_final) = length (acc_time st_final)"
    by (simp_all add: Q_def)
qed

text \<open>
  A clock that reads 0 and then 5, under a limit of 1: the run ends with \<open>ELAPSED_TIME\<close> in
  its second iteration, with one recorded iteration and one call of each minimiser.
\<close>

theorem elapsed_time_test_first_witness:
  "\<exists>st. ADMM_run (scalar_env (Fin 1) (Fin 0) (\<lambda>k. if k = 0 then Fin 0 else Fin 5))
           (ADMMParams_default 3 (Fin 1)) = Inr st \<and>
        acc_status st = ELAPSED_TIME \<and> acc_time st = [Fin 0] \<and> tocks st = 2 \<and>
        oracle_calls st = [(MinLx, Fin 1), (MinLy, Fin 1)] \<and>
        acc_penalty_parameters st = [Fin 1] \<and> Fin 5 > Fin 1"
proof -
  let ?E = "scalar_env (Fin 1) (Fin 0) (\<lambda>k. if k = 0 then Fin 0 else Fin 5)"
  let ?params = "ADMMParams_default 3 (Fin 1)"
  have "\<exists>st. ADMM_run ?E ?params = Inr st \<and> acc_status st = ELAPSED_TIME \<and>
      acc_time st = [Fin 0] \<and> acc_penalty_parameters st = [Fin 1]"
    by (simp add: solver_eval cong: let_weak_cong)
  then obtain st where st: "ADMM_run ?E ?params = Inr st" "acc_status st = ELAPSED_TIME"
      "acc_time st = [Fin 0]" "acc_penalty_parameters st = [Fin 1]"
    by blast
  from elapsed_time_test_first [where E = ?E and params = ?params and st_final = st,
      THEN conjunct2] st
  have "env_tock ?E (Suc 0) > max_computation_time ?params" and "tocks st = 2"
    and "oracle_calls st = [(MinLx, Fin 1), (MinLy, Fin 1)]"
    by simp_all
  then have "Fin 5 > Fin 1"
    by (simp add: scalar_env_def ADMMParams_default_def)
  with st \<open>tocks st = 2\<close> \<open>oracle_calls st = [(MinLx, Fin 1), (MinLy, Fin 1)]\<close>
  show ?thesis
    by blast
qed

text \<open>
  Claim C7, as amended. When the mode is \<open>None\<close> or the adaptation period is not zero, every
  call of the solver returns a result; its status is one of the three, and when it is
  \<open>ITERATION_LIMIT\<close> the four recorded sequences have length \<open>max_iterations\<close>.
\<close>

theorem ADMM_returns_one_status:
  assumes "penalty_adaptation_mode params = None_Adaptation \<or>
           penalty_adaptation_period params \<noteq> 0"
  shows "\<exists>res. ADMM scale_x scale_r tock minLx minLy A B At inner_product_x inner_product_r
                  c x0 y0 params = Inr res \<and>
           (status res = RESIDUAL_TOLERANCE \<or> status res = ITERATION_LIMIT \<or>
            status res = ELAPSED_TIME) \<and>
           (status res = ITERATION_LIMIT \<longrightarrow>
              length (time res) = max_iterations params \<and>
              length (primal_residuals res) = max_iterations params \<and>
              length (dual_residuals res) = max_iterations params \<and>
              length (penalty_parameters res) = max_iterations params)"
proof -
  let ?E = "\<lparr>env_minLx = minLx, env_minLy = minLy, env_A = A, env_B = B, env_At = At,
             env_inner_product_x = inner_product_x, env_inner_product_r = inner_product_r,
             env_c = c, env_x0 = x0, env_y0 = y0,
             env_scale_x = scale_x, env_scale_r = scale_r, env_tock = tock\<rparr>"
  from ADMM_loop_defined [OF assms] obtain st where st: "ADMM_run ?E params = Inr st"
    unfolding ADMM_run_def Let_def by blast
  have "status (ADMM_output ?E st) = RESIDUAL_TOLERANCE \<or>
        status (ADMM_output ?E st) = ITERATION_LIMIT \<or>
        status (ADMM_output ?E st) = ELAPSED_TIME"
    by (cases "status (ADMM_output ?E st)") simp_all
  moreover from ADMM_run_status_lengths [OF st]
  have "status (ADMM_output ?E st) = ITERATION_LIMIT \<longrightarrow>
      length (time (ADMM_output ?E st)) = max_iterations params \<and>
      length (primal_residuals (ADMM_output ?E st)) = max_iterations params \<and>
      length (dual_residuals (ADMM_output ?E st)) = max_iterations params \<and>
      length (penalty_parameters (ADMM_output ?E st)) = max_iterations params"
    by (simp add: ADMM_output_def)
  ultimately show ?thesis
    using st by (simp add: ADMM_def)
qed

text \<open>Two iterations without adaptation and without convergence.\<close>

theorem ADMM_returns_one_status_witness:
  "penalty_adaptation_mode (ADMMParams_default 2 (Fin 1)) = None_Adaptation \<and>
   (\<exists>res. ADMM (*) (*) (\<lambda>k. Fin 0) (\<lambda>x y lambda rho. Fin 1) (\<lambda>x y lambda rho. Fin 0)
             (\<lambda>x. x) (\<lambda>y. - y) (\<lambda>r. r) (*) (*) (Fin 0) (Fin 0) (Fin 0)
             (ADMMParams_default 2 (Fin 1)) = Inr res \<and>
           status res = ITERATION_LIMIT \<and> length (time res) = 2 \<and>
           length (primal_residuals res) = 2 \<and> length (dual_residuals res) = 2 \<and>
           length (penalty_parameters res) = 2)"
proof -
  let ?params = "ADMMParams_default 2 (Fin 1)"
  have h: "penalty_adaptation_mode ?params = None_Adaptation \<or>
      penalty_adaptation_period ?params \<noteq> 0"
    and m: "penalty_adaptation_mode ?params = None_Adaptation"
    and n: "max_iterations ?params = 2"
    by (simp_all add: ADMMParams_default_def)
  from ADMM_returns_one_status [OF h, of "(*)" "(*)" "\<lambda>k. Fin 0" "\<lambda>x y lambda rho. Fin 1"
      "\<lambda>x y lambda rho. Fin 0" "\<lambda>x. x" "\<lambda>y. - y" "\<lambda>r. r" "(*)" "(*)" "Fin 0" "Fin 0" "Fin 0"]
  obtain res where res: "ADMM (*) (*) (\<lambda>k. Fin 0) (\<lambda>x y lambda rho. Fin 1)
        (\<lambda>x y lambda rho. Fin 0) (\<lambda>x. x) (\<lambda>y. - y) (\<lambda>r. r) (*) (*) (Fin 0) (Fin 0) (Fin 0)
        ?params = Inr res"
    and len: "status res = ITERATION_LIMIT \<longrightarrow>
        length (time res) = max_iterations ?params \<and>
        length (primal_residuals res) = max_iterations ?params \<and>
        length (dual_residuals res) = max_iterations ?params \<and>
        length (penalty_parameters res) = max_iterations ?params"
    by blast
  have "\<exists>res'. ADMM (*) (*) (\<lambda>k. Fin 0) (\<lambda>x y lambda rho. Fin 1)
        (\<lambda>x y lambda rho. Fin 0) (\<lambda>x. x) (\<lambda>y. - y) (\<lambda>r. r) (*) (*) (Fin 0) (Fin 0) (Fin 0)
        ?params = Inr res' \<and> status res' = ITERATION_LIMIT"
    by (simp add: solver_eval cong: let_weak_cong)
  with res have "status res = ITERATION_LIMIT"
    by auto
  with res len m n show ?thesis
    by auto
qed

text \<open>
  The claim as it was stated covers every call. With residual balancing and
  \<open>penalty_adaptation_period = 0\<close>, which the solver accepts, the first iteration does not
  converge and line 461 takes the remainder \<open>0 % 0\<close>: the call has undefined behaviour and
  produces no status.
\<close>

theorem zero_period_counterexample:
  "ADMM (*) (*) (\<lambda>k. Fin 0) (\<lambda>x y lambda rho. Fin 1) (\<lambda>x y lambda rho. Fin 0)
     (\<lambda>x. x) (\<lambda>y. - y) (\<lambda>r. r) (*) (*) (Fin 0) (Fin 0) (Fin 0)
     ((ADMMParams_default 2 (Fin 1))\<lparr>penalty_adaptation_mode := Residual_Balance,
        penalty_adaptation_period := 0\<rparr>) = Inl Remainder_By_Zero"
  by (simp add: solver_eval cong: let_weak_cong)

text \<open>
  Claim C8, as amended. The update divides without a guard: when all six inner products are
  zero, as for deltas that are identically zero, the four step size quotients and both
  correlations are \<open>0 / 0\<close>, that is NaN. No non-finite value reaches the result there: the
  NaN correlations fail every comparison of the safeguard and the update returns the
  current \<open>rho\<close>. A non-finite \<open>rho\<close> is returned for other inputs, where a zero denominator
  comes with an accepted correlation: for orthogonal \<open>delta_H_hat = (1, 0)\<close> and
  \<open>delta_lambda_hat = (0, 1)\<close> the correlation 0 is accepted under the negative threshold
  \<open>eps_cor = -0.5\<close>, \<open>alpha_SD = 1 / 0\<close>, and the update returns \<open>+\<infinity>\<close>.
\<close>

theorem spectral_zero_denominators:
  fixes inner_product :: "'r \<Rightarrow> 'r \<Rightarrow> double"
  shows
  "(is_zero (inner_product delta_lambda_hat delta_lambda_hat) \<and>
    is_zero (inner_product delta_H_hat delta_lambda_hat) \<and>
    is_zero (inner_product delta_H_hat delta_H_hat) \<and>
    is_zero (inner_product delta_lambda delta_lambda) \<and>
    is_zero (inner_product delta_G_hat delta_lambda) \<and>
    is_zero (inner_product delta_G_hat delta_G_hat) \<longrightarrow>
      stepsize_SD inner_product delta_lambda_hat delta_H_hat = NaN \<and>
      stepsize_MG inner_product delta_lambda_hat delta_H_hat = NaN \<and>
      stepsize_SD inner_product delta_lambda delta_G_hat = NaN \<and>
      stepsize_MG inner_product delta_lambda delta_G_hat = NaN \<and>
      correlation inner_product delta_lambda_hat delta_H_hat = NaN \<and>
      correlation inner_product delta_lambda delta_G_hat = NaN \<and>
      spectral_penalty_parameter_update delta_lambda_hat delta_lambda delta_H_hat delta_G_hat
        inner_product eps_cor rho = rho) \<and>
   spectral_penalty_parameter_update (Fin 0, Fin 1) (Fin 1, Fin 0) (Fin 1, Fin 0) (Fin 1, Fin 0)
     dot2 (Fin (- 1 / 2)) (Fin 1) = PInf"
proof -
  have zz: "a / b = NaN" if "is_zero a" "is_zero b" for a b :: double
    using that by (simp add: divide_double_def ddiv_def is_nan_def is_zero_def)
  have zs: "is_zero (dsqrt a * dsqrt b)" if "is_zero a" "is_zero b" for a b :: double
    using that by (auto simp add: double_ops)
  have nan_le: "\<not> NaN \<le> b" and nan_gt: "\<not> NaN > b" for b :: double
    by (simp_all add: less_eq_double_def less_double_def dlt_def is_nan_def)
  have ex: "spectral_penalty_parameter_update (Fin 0, Fin 1) (Fin 1, Fin 0) (Fin 1, Fin 0)
     (Fin 1, Fin 0) dot2 (Fin (- 1 / 2)) (Fin 1) = PInf"
    by (simp add: spectral_penalty_parameter_update_unfold correlation_def stepsize_def
      stepsize_SD_def stepsize_MG_def hybrid_stepsize_def dot2_def double_ops)
  show ?thesis
    using ex
    by (simp add: spectral_penalty_parameter_update_unfold correlation_def stepsize_SD_def
        stepsize_MG_def zz zs nan_le nan_gt)
qed

theorem spectral_zero_denominators_witness:
  "is_zero (Fin 0 * Fin 0) \<and> is_zero (NZero * Fin 0) \<and> is_zero (NZero * NZero) \<and>
   stepsize_SD (*) (Fin 0) NZero = NaN \<and> stepsize_MG (*) (Fin 0) NZero = NaN \<and>
   correlation (*) (Fin 0) NZero = NaN \<and>
   spectral_penalty_parameter_update (Fin 0) (Fin 0) NZero NZero (*) (Fin (1 / 5)) (Fin 3)
     = Fin 3"
proof -
  have z: "is_zero (Fin 0 * Fin 0)" "is_zero (NZero * Fin 0)" "is_zero (NZero * NZero)"
    by (simp_all add: double_ops)
  with spectral_zero_denominators [where inner_product = "(*)" and
      delta_lambda_hat = "Fin 0" and delta_lambda = "Fin 0" and delta_H_hat = NZero and
      delta_G_hat = NZero and eps_cor = "Fin (1 / 5)" and rho = "Fin 3"]
  show ?thesis
    by simp
qed

text \<open>
  The claim as it was stated has a non-finite \<open>rho\<close> follow from the divisions by zero at
  identically zero deltas. There the denominators are zero indeed, but the update returns
  the current \<open>rho = 1\<close>, which is finite.
\<close>

theorem spectral_zero_deltas_counterexample:
  "is_zero (Fin 0 * Fin 0) \<and> is_zero (NZero * Fin 0) \<and> is_zero (NZero * NZero) \<and>
   is_zero (dsqrt (NZero * NZero) * dsqrt (Fin 0 * Fin 0)) \<and>
   spectral_penalty_parameter_update (Fin 0) (Fin 0) NZero NZero (*) (Fin (1 / 5)) (Fin 1)
     = Fin 1 \<and>
   is_finite (Fin 1)"
  by (simp add: spectral_penalty_parameter_update_unfold correlation_def stepsize_def
      stepsize_SD_def stepsize_MG_def hybrid_stepsize_def double_ops)

text \<open>
  Claim C9. For all arguments the overload for a single variable type returns what the
  general solver returns for the same minimisers, operators, initial values and
  parameters, with the one inner product in both places: the same error or the same result,
  hence the same status, recorded sequences and final pair.
\<close>

theorem ADMM_single_forwards:
  "ADMM_single scale tock minLx minLy A B At inner_product c x0 y0 params =
   ADMM scale scale tock minLx minLy A B At inner_product inner_product c x0 y0 params"
  by (simp add: ADMM_single_def)

text \<open>Both at one input, with the common result.\<close>

theorem ADMM_single_forwards_witness:
  "ADMM_single (*) (\<lambda>k. Fin 0) (\<lambda>x y lambda rho. Fin 1) (\<lambda>x y lambda rho. Fin 0)
     (\<lambda>x. x) (\<lambda>y. - y) (\<lambda>r. r) (*) (Fin 0) (Fin 0) (Fin 0) (ADMMParams_default 1 (Fin 1)) =
   ADMM (*) (*) (\<lambda>k. Fin 0) (\<lambda>x y lambda rho. Fin 1) (\<lambda>x y lambda rho. Fin 0)
     (\<lambda>x. x) (\<lambda>y. - y) (\<lambda>r. r) (*) (*) (Fin 0) (Fin 0) (Fin 0) (ADMMParams_default 1 (Fin 1)) \<and>
   (\<exists>res. ADMM_single (*) (\<lambda>k. Fin 0) (\<lambda>x y lambda rho. Fin 1) (\<lambda>x y lambda rho. Fin 0)
      (\<lambda>x. x) (\<lambda>y. - y) (\<lambda>r. r) (*) (Fin 0) (Fin 0) (Fin 0) (ADMMParams_default 1 (Fin 1))
        = Inr res \<and>
      status res = ITERATION_LIMIT \<and> x_final res = (Fin 1, Fin 0) \<and>
      primal_residuals res = [Fin 1] \<and> dual_residuals res = [Fin 0] \<and>
      penalty_parameters res = [Fin 1])"
proof -
  have "\<exists>res. ADMM (*) (*) (\<lambda>k. Fin 0) (\<lambda>x y lambda rho. Fin 1) (\<lambda>x y lambda rho. Fin 0)
     (\<lambda>x. x) (\<lambda>y. - y) (\<lambda>r. r) (*) (*) (Fin 0) (Fin 0) (Fin 0) (ADMMParams_default 1 (Fin 1))
        = Inr res \<and>
      status res = ITERATION_LIMIT \<and> x_final res = (Fin 1, Fin 0) \<and>
      primal_residuals res = [Fin 1] \<and> dual_residuals res = [Fin 0] \<and>
      penalty_parameters res = [Fin 1]"
    by (simp add: solver_eval cong: let_weak_cong)
  with ADMM_single_forwards [of "(*)" "\<lambda>k. Fin 0" "\<lambda>x y lambda rho. Fin 1"
      "\<lambda>x y lambda rho. Fin 0" "\<lambda>x. x" "\<lambda>y. - y" "\<lambda>r. r" "(*)" "Fin 0" "Fin 0" "Fin 0"
      "ADMMParams_default 1 (Fin 1)"]
  show ?thesis
    by simp
qed

text \<open>
  Claim C10. When \<open>max_iterations\<close> is 0 or the first clock reading exceeds the time limit,
  the solver returns the pair \<open>(x0, y0)\<close> and empty sequences of times, residuals, penalty
  parameters and iterates (with status \<open>ITERATION_LIMIT\<close> in the first case and
  \<open>ELAPSED_TIME\<close> otherwise). An iteration that records at all records the \<open>rho\<close> it started
  with, which is the \<open>rho\<close> it gave to both minimisers, before any adaptation. So in every
  run the minimisers have been called with exactly the recorded penalty parameters, in
  order, and the first recorded penalty parameter is the initial \<open>rho\<close>.
\<close>

theorem no_iteration_and_recorded_penalty:
  "(max_iterations params = 0 \<or> tock 0 > max_computation_time params \<longrightarrow>
      (\<exists>res. ADMM scale_x scale_r tock minLx minLy A B At inner_product_x inner_product_r
                c x0 y0 params = Inr res \<and>
              x_final res = (x0, y0) \<and> time res = [] \<and> primal_residuals res = [] \<and>
              dual_residuals res = [] \<and> penalty_parameters res = [] \<and> iterates res = [] \<and>
              status res = (if max_iterations params = 0 then ITERATION_LIMIT
                            else ELAPSED_TIME))) \<and>
   (ADMM_iteration E params c_norm i st = Inr (Break st') \<and>
      \<not> env_tock E (tocks st) > max_computation_time params \<longrightarrow>
        acc_penalty_parameters st' = acc_penalty_parameters st @ [var_rho st] \<and>
        oracle_calls st' = oracle_calls st @ [(MinLx, var_rho st), (MinLy, var_rho st)]) \<and>
   (ADMM_iteration E params c_norm i st = Inr (Next st') \<longrightarrow>
        acc_penalty_parameters st' = acc_penalty_parameters st @ [var_rho st] \<and>
        oracle_calls st' = oracle_calls st @ [(MinLx, var_rho st), (MinLy, var_rho st)]) \<and>
   (ADMM_run E params = Inr st_final \<longrightarrow>
      oracle_calls st_final =
        concat (map (\<lambda>rho. [(MinLx, rho), (MinLy, rho)]) (acc_penalty_parameters st_final)) \<and>
      (acc_penalty_parameters st_final \<noteq> [] \<longrightarrow>
         hd (acc_penalty_parameters st_final) = rho_initial params))"
proof (intro conjI impI)
  let ?E = "\<lparr>env_minLx = minLx, env_minLy = minLy, env_A = A, env_B = B, env_At = At,
             env_inner_product_x = inner_product_x, env_inner_product_r = inner_product_r,
             env_c = c, env_x0 = x0, env_y0 = y0,
             env_scale_x = scale_x, env_scale_r = scale_r, env_tock = tock\<rparr>"
  assume "max_iterations params = 0 \<or> tock 0 > max_computation_time params"
  then have "max_iterations params = 0 \<or> env_tock ?E 0 > max_computation_time params"
    by simp
  from ADMM_run_no_iteration [OF this]
  show "\<exists>res. ADMM scale_x scale_r tock minLx minLy A B At inner_product_x inner_product_r
                c x0 y0 params = Inr res \<and>
              x_final res = (x0, y0) \<and> time res = [] \<and> primal_residuals res = [] \<and>
              dual_residuals res = [] \<and> penalty_parameters res = [] \<and> iterates res = [] \<and>
              status res = (if max_iterations params = 0 then ITERATION_LIMIT
                            else ELAPSED_TIME)"
    by (simp add: ADMM_def ADMM_output_def ADMM_initial_state_simps)
next
  assume "ADMM_iteration E params c_norm i st = Inr (Break st') \<and>
      \<not> env_tock E (tocks st) > max_computation_time params"
  then show "acc_penalty_parameters st' = acc_penalty_parameters st @ [var_rho st]"
    and "oracle_calls st' = oracle_calls st @ [(MinLx, var_rho st), (MinLy, var_rho st)]"
    using ADMM_iteration_Break [of E params c_norm i st st'] by blast+
next
  assume "ADMM_iteration E params c_norm i st = Inr (Next st')"
  then show "acc_penalty_parameters st' = acc_penalty_parameters st @ [var_rho st]"
    and "oracle_calls st' = oracle_calls st @ [(MinLx, var_rho st), (MinLy, var_rho st)]"
    using ADMM_iteration_Next [of E params c_norm i st st'] by blast+
next
  assume run: "ADMM_run E params = Inr st_final"
  from ADMM_run_recorded(1) [OF run]
  show "oracle_calls st_final =
      concat (map (\<lambda>rho. [(MinLx, rho), (MinLy, rho)]) (acc_penalty_parameters st_final))" .
  assume "acc_penalty_parameters st_final \<noteq> []"
  with ADMM_run_recorded(2) [OF run]
  show "hd (acc_penalty_parameters st_final) = rho_initial params" .
qed

text \<open>
  No iteration with \<open>max_iterations = 0\<close>, none with a first clock reading of 5 under a limit
  of 1, and two iterations of residual balancing.
\<close>

theorem no_iteration_and_recorded_penalty_witness:
  "(\<exists>res. ADMM (*) (*) (\<lambda>k. Fin 0) (\<lambda>x y lambda rho. Fin 1) (\<lambda>x y lambda rho. Fin 0)
            (\<lambda>x. x) (\<lambda>y. - y) (\<lambda>r. r) (*) (*) (Fin 0) (Fin 3) (Fin 4)
            (ADMMParams_default 0 (Fin 1)) = Inr res \<and>
          x_final res = (Fin 3, Fin 4) \<and> time res = [] \<and> primal_residuals res = [] \<and>
          dual_residuals res = [] \<and> penalty_parameters res = [] \<and> iterates res = [] \<and>
          status res = ITERATION_LIMIT) \<and>
   (\<exists>res. ADMM (*) (*) (\<lambda>k. Fin 5) (\<lambda>x y lambda rho. Fin 1) (\<lambda>x y lambda rho. Fin 0)
            (\<lambda>x. x) (\<lambda>y. - y) (\<lambda>r. r) (*) (*) (Fin 0) (Fin 3) (Fin 4)
            (ADMMParams_default 3 (Fin 1)) = Inr res \<and>
          x_final res = (Fin 3, Fin 4) \<and> time res = [] \<and> primal_residuals res = [] \<and>
          dual_residuals res = [] \<and> penalty_parameters res = [] \<and> iterates res = [] \<and>
          status res = ELAPSED_TIME) \<and>
   (\<exists>st. ADMM_run (scalar_env (Fin 1) (Fin 0) (\<lambda>k. Fin 0))
            ((ADMMParams_default 2 (Fin 1))\<lparr>penalty_adaptation_mode := Residual_Balance\<rparr>)
          = Inr st \<and>
         acc_penalty_parameters st = [Fin 1, Fin 2] \<and>
         hd (acc_penalty_parameters st) = Fin 1 \<and>
         oracle_calls st = [(MinLx, Fin 1), (MinLy, Fin 1), (MinLx, Fin 2), (MinLy, Fin 2)])"
proof -
  let ?P0 = "ADMMParams_default 0 (Fin 1)"
  let ?P3 = "ADMMParams_default 3 (Fin 1)"
  let ?P2 = "(ADMMParams_default 2 (Fin 1))\<lparr>penalty_adaptation_mode := Residual_Balance\<rparr>"
  let ?E = "scalar_env (Fin 1) (Fin 0) (\<lambda>k. Fin 0)"
  have h0: "max_iterations ?P0 = 0 \<or> Fin 0 > max_computation_time ?P0"
    and m0: "max_iterations ?P0 = 0"
    and h3: "max_iterations ?P3 = 0 \<or> Fin 5 > max_computation_time ?P3"
    and m3: "max_iterations ?P3 \<noteq> 0"
    and r2: "rho_initial ?P2 = Fin 1"
    by (simp_all add: ADMMParams_default_def double_ops)
  note thm0 = no_iteration_and_recorded_penalty [of ?P0 "\<lambda>k. Fin 0" "(*)" "(*)"
      "\<lambda>x y lambda rho. Fin 1" "\<lambda>x y lambda rho. Fin 0" "\<lambda>x. x" "\<lambda>y. - y" "\<lambda>r. r"
      "(*)" "(*)" "Fin 0" "Fin 3" "Fin 4", THEN conjunct1, rule_format, OF h0]
  note thm3 = no_iteration_and_recorded_penalty [of ?P3 "\<lambda>k. Fin 5" "(*)" "(*)"
      "\<lambda>x y lambda rho. Fin 1" "\<lambda>x y lambda rho. Fin 0" "\<lambda>x. x" "\<lambda>y. - y" "\<lambda>r. r"
      "(*)" "(*)" "Fin 0" "Fin 3" "Fin 4", THEN conjunct1, rule_format, OF h3]
  have "\<exists>st. ADMM_run ?E ?P2 = Inr st \<and> acc_penalty_parameters st = [Fin 1, Fin 2]"
    by (simp add: solver_eval cong: let_weak_cong)
  then obtain st where st: "ADMM_run ?E ?P2 = Inr st"
      "acc_penalty_parameters st = [Fin 1, Fin 2]"
    by blast
  from no_iteration_and_recorded_penalty [where E = ?E and params = ?P2 and st_final = st,
      THEN conjunct2, THEN conjunct2, THEN conjunct2, rule_format, OF st(1)] st(2)
  have "oracle_calls st =
      concat (map (\<lambda>rho. [(MinLx, rho), (MinLy, rho)]) (acc_penalty_parameters st))"
    and "hd (acc_penalty_parameters st) = rho_initial ?P2"
    by simp_all
  with st r2 have "\<exists>st. ADMM_run ?E ?P2 = Inr st \<and>
      acc_penalty_parameters st = [Fin 1, Fin 2] \<and> hd (acc_penalty_parameters st) = Fin 1 \<and>
      oracle_calls st = [(MinLx, Fin 1), (MinLy, Fin 1), (MinLx, Fin 2), (MinLy, Fin 2)]"
    by simp
  with thm0 thm3 m0 m3 show ?thesis
    by simp
qed

end
